theory Spec2Isabelle
  imports Main
begin

section \<open>Strings\<close>

text \<open>
  A JavaScript string is modelled as the list of its characters; only characters below
  U+0100 are represented.  Writing a string to a file and reading it back as text is the
  identity, so the content of a text file is the string that was written.
\<close>

definition is_ws :: "char \<Rightarrow> bool" where
  \<comment> \<open>\<open>\s\<close> of a regular expression and the characters removed by \<open>String.prototype.trim\<close>:
      tab, line feed, vertical tab, form feed, carriage return, space, no-break space.\<close>
  "is_ws c = (c = CHR 0x09 \<or> c = CHR 0x0A \<or> c = CHR 0x0B \<or> c = CHR 0x0C \<or> c = CHR 0x0D
              \<or> c = CHR 0x20 \<or> c = CHR 0xA0)"

definition is_line_terminator :: "char \<Rightarrow> bool" where
  "is_line_terminator c = (c = CHR 0x0A \<or> c = CHR 0x0D)"

definition is_word_char :: "char \<Rightarrow> bool" where
  \<comment> \<open>\<open>\w\<close>: letters, digits and the underscore.\<close>
  "is_word_char c =
     (let n = (of_char c :: nat)
      in (65 \<le> n \<and> n \<le> 90) \<or> (97 \<le> n \<and> n \<le> 122) \<or> (48 \<le> n \<and> n \<le> 57) \<or> n = 95)"

definition squote :: char where "squote = CHR 0x27"
definition dquote :: char where "dquote = CHR 0x22"
definition bquote :: char where "bquote = CHR 0x60"
definition backslash :: char where "backslash = CHR 0x5C"

definition trim :: "string \<Rightarrow> string" where
  "trim s = rev (dropWhile is_ws (rev (dropWhile is_ws s)))"

section \<open>Regular expressions with backtracking\<close>

text \<open>
  The credential file is read back with \<open>dotenv.parse\<close>, which is driven by a regular
  expression.  The matcher below follows the backtracking semantics of JavaScript regular
  expressions: \<open>ms r st\<close> lists, in the order in which backtracking tries them, the states
  in which a match of \<open>r\<close> started in \<open>st\<close> can end.  A state records the character
  before the current position (for \<open>^\<close>), the text still to be read, and the capture groups.
  \<open>Bol\<close> and \<open>Eol\<close> are \<open>^\<close> and \<open>$\<close> under the \<open>m\<close> flag.  An iteration of a
  star that consumes nothing is abandoned, as in JavaScript.
\<close>

datatype re = Eps | Cls "char \<Rightarrow> bool" | Seq re re | Alt re re | Star re | Lazy re
  | Bol | Eol | Cap nat re

datatype mstate = MState (prev: "char option") (rest: string) (caps: "nat \<Rightarrow> string option")

function ms :: "re \<Rightarrow> mstate \<Rightarrow> mstate list" where
  "ms Eps st = [st]"
| "ms (Cls P) st =
     (case rest st of [] \<Rightarrow> []
      | x # xs \<Rightarrow> if P x then [MState (Some x) xs (caps st)] else [])"
| "ms (Seq a b) st = concat (map (\<lambda>st'. ms b st') (ms a st))"
| "ms (Alt a b) st = ms a st @ ms b st"
| "ms (Star a) st =
     concat (map (\<lambda>st'. if length (rest st') < length (rest st) then ms (Star a) st' else [])
                 (ms a st)) @ [st]"
| "ms (Lazy a) st =
     st # concat (map (\<lambda>st'. if length (rest st') < length (rest st) then ms (Lazy a) st' else [])
                      (ms a st))"
| "ms Bol st =
     (case prev st of None \<Rightarrow> [st] | Some c \<Rightarrow> if is_line_terminator c then [st] else [])"
| "ms Eol st =
     (case rest st of [] \<Rightarrow> [st] | c # _ \<Rightarrow> if is_line_terminator c then [st] else [])"
| "ms (Cap i a) st =
     map (\<lambda>st'. MState (prev st') (rest st')
                    ((caps st')(i \<mapsto> take (length (rest st) - length (rest st')) (rest st))))
         (ms a st)"
  by pat_completeness auto
termination
  by (relation "measures [\<lambda>(r, st). size r, \<lambda>(r, st). length (rest st)]") auto

definition Opt :: "re \<Rightarrow> re" where
  "Opt r = Alt r Eps"

definition Plus :: "re \<Rightarrow> re" where
  "Plus r = Seq r (Star r)"

definition Lazy_plus :: "re \<Rightarrow> re" where
  "Lazy_plus r = Seq r (Lazy r)"

definition Chr :: "char \<Rightarrow> re" where
  "Chr c = Cls (\<lambda>x. x = c)"

definition Not_chr :: "char \<Rightarrow> re" where
  "Not_chr c = Cls (\<lambda>x. x \<noteq> c)"

fun Lit :: "string \<Rightarrow> re" where
  "Lit [] = Eps"
| "Lit (c # cs) = Seq (Chr c) (Lit cs)"

fun seqs :: "re list \<Rightarrow> re" where
  "seqs [] = Eps"
| "seqs [r] = r"
| "seqs (r # rs) = Seq r (seqs rs)"

fun find_match :: "re \<Rightarrow> char option \<Rightarrow> string \<Rightarrow> mstate option" where
  \<comment> \<open>\<open>RegExp.prototype.exec\<close>: the first match at the leftmost position where there is one.\<close>
  "find_match r p [] = (case ms r (MState p [] (\<lambda>_. None)) of [] \<Rightarrow> None | m # _ \<Rightarrow> Some m)"
| "find_match r p (x # xs) =
     (case ms r (MState p (x # xs) (\<lambda>_. None)) of
        [] \<Rightarrow> find_match r (Some x) xs
      | m # _ \<Rightarrow> Some m)"

definition group :: "mstate \<Rightarrow> nat \<Rightarrow> string" where
  \<comment> \<open>\<open>match[i] || ''\<close>: a group that did not take part in the match reads as the empty string.\<close>
  "group m i = (case caps m i of None \<Rightarrow> [] | Some v \<Rightarrow> v)"

section \<open>dotenv.parse\<close>

text \<open>
  \<open>dotenv.parse\<close> (dotenv 16) turns line breaks into \<open>\n\<close>, then repeatedly executes
  \<^verbatim>\<open>LINE = /(?:^|^)\s*(?:export\s+)?([\w.-]+)(?:\s*=\s*?|:\s+?)
          (\s*'(?:\\'|[^'])*'|\s*"(?:\\"|[^"])*"|\s*`(?:\\`|[^`])*`|[^#\r\n]+)?
          \s*(?:#.*)?(?:$|$)/mg\<close>
  on the text.  For each match, group 1 is the key; group 2 is trimmed, loses a pair of
  surrounding quotes, and has \<open>\n\<close> and \<open>\r\<close> escapes expanded when it was double quoted.
  A later assignment to a key replaces an earlier one.
\<close>

definition quoted_by :: "char \<Rightarrow> re" where
  \<comment> \<open>\<open>\s*q(?:\\q|[^q])*q\<close>\<close>
  "quoted_by q =
     seqs [Star (Cls is_ws), Chr q, Star (Alt (Lit [backslash, q]) (Not_chr q)), Chr q]"

definition LINE :: re where
  "LINE = seqs
     [Bol,
      Star (Cls is_ws),
      Opt (Seq (Lit ''export'') (Plus (Cls is_ws))),
      Cap 1 (Plus (Cls (\<lambda>c. is_word_char c \<or> c = CHR ''.'' \<or> c = CHR ''-''))),
      Alt (seqs [Star (Cls is_ws), Chr (CHR ''=''), Lazy (Cls is_ws)])
          (seqs [Chr (CHR '':''), Lazy_plus (Cls is_ws)]),
      Opt (Cap 2 (Alt (quoted_by squote) (Alt (quoted_by dquote) (Alt (quoted_by bquote)
             (Plus (Cls (\<lambda>c. c \<noteq> CHR ''#'' \<and> c \<noteq> CHR 0x0D \<and> c \<noteq> CHR 0x0A))))))),
      Star (Cls is_ws),
      Opt (Seq (Chr (CHR ''#'')) (Star (Cls (\<lambda>c. \<not> is_line_terminator c)))),
      Eol]"

fun normalize_line_breaks :: "string \<Rightarrow> string" where
  \<comment> \<open>\<open>lines.replace(/\r\n?/mg, '\n')\<close>\<close>
  "normalize_line_breaks [] = []"
| "normalize_line_breaks (c # s) =
     (if c = CHR 0x0D
      then CHR 0x0A #
           (case s of [] \<Rightarrow> []
            | d # t \<Rightarrow> if d = CHR 0x0A then normalize_line_breaks t
                       else normalize_line_breaks (d # t))
      else c # normalize_line_breaks s)"

definition surrounded_by :: "char \<Rightarrow> re" where
  "surrounded_by q = seqs [Bol, Chr q, Cap 2 (Star (Cls (\<lambda>_. True))), Chr q, Eol]"

definition SURROUNDING_QUOTES :: re where
  \<comment> \<open>\<^verbatim>\<open>/^(['"`])([\s\S]*)\1$/mg\<close>, the back reference written out for each of the three quotes.\<close>
  "SURROUNDING_QUOTES =
     Alt (surrounded_by squote) (Alt (surrounded_by dquote) (surrounded_by bquote))"

function replace_by_group2 :: "re \<Rightarrow> char option \<Rightarrow> string \<Rightarrow> string" where
  \<comment> \<open>\<open>s.replace(r, '$2')\<close> for a regular expression \<open>r\<close> with the \<open>g\<close> flag.\<close>
  "replace_by_group2 r p s =
     (case ms r (MState p s (\<lambda>_. None)) of
        m # _ \<Rightarrow>
          (if length (rest m) < length s
           then group m 2 @ replace_by_group2 r (prev m) (rest m)
           else (case s of [] \<Rightarrow> group m 2
                 | x # xs \<Rightarrow> group m 2 @ x # replace_by_group2 r (Some x) xs))
      | [] \<Rightarrow> (case s of [] \<Rightarrow> [] | x # xs \<Rightarrow> x # replace_by_group2 r (Some x) xs))"
  by pat_completeness auto
termination
  by (relation "measure (\<lambda>(r, p, s). length s)") auto

fun expand_escape :: "char \<Rightarrow> char \<Rightarrow> string \<Rightarrow> string" where
  \<comment> \<open>\<open>s.replace(/\\e/g, c)\<close> for a letter \<open>e\<close>\<close>
  "expand_escape e c [] = []"
| "expand_escape e c [x] = [x]"
| "expand_escape e c (x # y # s) =
     (if x = backslash \<and> y = e then c # expand_escape e c s
      else x # expand_escape e c (y # s))"

definition dotenv_value :: "string \<Rightarrow> string" where
  "dotenv_value v =
     (let value = trim v;
          maybeQuote = (case value of [] \<Rightarrow> None | c # _ \<Rightarrow> Some c);
          value = replace_by_group2 SURROUNDING_QUOTES None value
      in if maybeQuote = Some dquote
         then expand_escape (CHR ''r'') (CHR 0x0D) (expand_escape (CHR ''n'') (CHR 0x0A) value)
         else value)"

function dotenv_matches :: "char option \<Rightarrow> string \<Rightarrow> (string \<times> string) list" where
  \<comment> \<open>The \<open>while ((match = LINE.exec(lines)) != null)\<close> loop: the assignments it makes,
      in order.  A match of \<open>LINE\<close> contains a key, so it is never empty and the loop
      moves on (\<open>dotenv_matches_moves_on\<close> below).\<close>
  "dotenv_matches p s =
     (case find_match LINE p s of
        None \<Rightarrow> []
      | Some m \<Rightarrow>
          (group m 1, dotenv_value (group m 2)) #
          (if length (rest m) < length s then dotenv_matches (prev m) (rest m) else []))"
  by pat_completeness auto
termination
  by (relation "measure (\<lambda>(p, s). length s)") auto

definition dotenv_parse :: "string \<Rightarrow> (string \<rightharpoonup> string)" where
  "dotenv_parse src = map_of (rev (dotenv_matches None (normalize_line_breaks src)))"

section \<open>Paths\<close>

text \<open>\<open>path.join\<close> and \<open>path.normalize\<close> of Node.js, for POSIX paths.\<close>

fun split_on :: "char \<Rightarrow> string \<Rightarrow> string list" where
  "split_on c [] = [[]]"
| "split_on c (x # xs) =
     (if x = c then [] # split_on c xs
      else (case split_on c xs of [] \<Rightarrow> [[x]] | seg # segs \<Rightarrow> (x # seg) # segs))"

fun join_with :: "string \<Rightarrow> string list \<Rightarrow> string" where
  "join_with sep [] = []"
| "join_with sep [s] = s"
| "join_with sep (s # ss) = s @ sep @ join_with sep ss"

fun normalize_segments :: "bool \<Rightarrow> string list \<Rightarrow> string list \<Rightarrow> string list" where
  \<comment> \<open>\<open>normalizeString\<close>: the segments kept so far are held in reverse order.\<close>
  "normalize_segments allowAboveRoot res [] = rev res"
| "normalize_segments allowAboveRoot res (seg # segs) =
     (if seg = [] \<or> seg = ''.'' then normalize_segments allowAboveRoot res segs
      else if seg = ''..'' then
        (case res of
           [] \<Rightarrow> normalize_segments allowAboveRoot (if allowAboveRoot then [''..''] else []) segs
         | lastSegment # below \<Rightarrow>
             if lastSegment = ''..''
             then normalize_segments allowAboveRoot
                    (if allowAboveRoot then ''..'' # res else res) segs
             else normalize_segments allowAboveRoot below segs)
      else normalize_segments allowAboveRoot (seg # res) segs)"

definition normalize :: "string \<Rightarrow> string" where
  "normalize path =
     (if path = [] then ''.''
      else
        let isAbsolute = (hd path = CHR ''/'');
            trailingSeparator = (last path = CHR ''/'');
            p = join_with ''/'' (normalize_segments (\<not> isAbsolute) [] (split_on (CHR ''/'') path))
        in if p = [] then (if isAbsolute then ''/'' else if trailingSeparator then ''./'' else ''.'')
           else (if isAbsolute then ''/'' else []) @ p @ (if trailingSeparator then ''/'' else []))"

definition path_join :: "string list \<Rightarrow> string" where
  "path_join args =
     (let parts = filter (\<lambda>arg. arg \<noteq> []) args
      in if parts = [] then ''.'' else normalize (join_with ''/'' parts))"

section \<open>Values exchanged with the service and the user\<close>

record file_record =
  file_id :: string
  file_name :: string

text \<open>
  The body of a 2xx response, as far as the client reads it: the fields \<open>auth_token\<close>
  and \<open>files\<close> of the parsed JSON (\<open>None\<close> when the field is missing), and the raw bytes
  (what a request with \<open>responseType: 'arraybuffer'\<close> receives).
\<close>

record response_data =
  auth_token :: "string option"
  files :: "file_record list option"

record response =
  data :: response_data
  bytes :: string

record error_data =
  data_error :: "string option"
  data_message :: "string option"

text \<open>
  A thrown error.  An axios error carries \<open>response\<close> (status and body) when the service
  answered with a status outside 2xx, and only \<open>request\<close> when no answer arrived;
  every error has a \<open>message\<close>.
\<close>

datatype js_error =
    Response_error nat error_data string
  | Request_error string
  | Plain_error string

fun message :: "js_error \<Rightarrow> string" where
  "message (Response_error status d m) = m"
| "message (Request_error m) = m"
| "message (Plain_error m) = m"

definition truthy :: "string option \<Rightarrow> bool" where
  \<comment> \<open>A missing field and the empty string are falsy.\<close>
  "truthy v = (case v of None \<Rightarrow> False | Some s \<Rightarrow> s \<noteq> [])"

definition files_or_empty :: "response \<Rightarrow> file_record list" where
  \<comment> \<open>\<open>response.data.files || []\<close>\<close>
  "files_or_empty r = (case files (data r) of None \<Rightarrow> [] | Some fs \<Rightarrow> fs)"

datatype menu_option = Access_Endpoint | Create_Endpoint | Exit_option

datatype action = Upload_File | Download_File | Back_to_Menu

text \<open>
  What the environment supplies, in the order in which the program asks for it: the
  answers typed at the prompts and the outcomes of the HTTP requests.
\<close>

datatype input =
    Menu_choice menu_option
  | Credentials string string
  | Action_choice action
  | Path_input string
  | Index_choice nat
  | Prompt_fails string
  | Http_ok response
  | Http_error js_error

datatype prompt =
    Main_menu_prompt | Access_prompt | Create_prompt | Action_prompt | File_path_prompt
  | Select_file_prompt "string list"

datatype request =
    Get_site string string
  | Post_createsite string string
  | Post_upload string string "string option"
  | Get_file string "string option"





text \<open>
  What the program does that can be observed.  The colours and pictograms of the messages
  are left out: \<open>Error_line s\<close> is the red line \<open>Error: s\<close>, \<open>Info\<close>, \<open>Success\<close>
  and \<open>Endpoint_line\<close> are the lines printed through \<open>styles.info\<close>,
  \<open>styles.success\<close> and \<open>styles.endpoint\<close>, \<open>File_line n name\<close> is an entry of the
  numbered file list.
\<close>

datatype event =
    Clear
  | Title
  | Info string
  | Error_line string
  | Success string
  | Endpoint_line string
  | Text string
  | File_line nat string
  | Blank
  | Stderr string
  | Asked prompt
  | Rejected string
  | Sent request
  | Sleep nat
  | Uncaught js_error

section \<open>State and effects\<close>

text \<open>
  The state holds the inputs still to come, the regular files on disk with their content,
  the directories (with the size \<open>stat\<close> reports for each), the events so far, the home
  directory, the errors with which the operating system refuses to create a directory or
  to write a file for a reason that the files and directories do not show (permissions,
  a full disk, a name that is too long), and whether the module-level binding \<open>styles\<close>
  has been initialised.
\<close>

record state =
  ins :: "input list"
  disk :: "string \<rightharpoonup> string"
  dirs :: "string \<rightharpoonup> nat"
  out :: "event list"
  homedir :: string
  mkdir_error :: "string \<rightharpoonup> string"
  write_error :: "string \<rightharpoonup> string"
  styles_initialized :: bool

datatype halt = Exited nat | Waiting | Out_of_fuel

text \<open>
  A computation returns a value, throws, or stops for good: \<open>process.exit\<close>, a prompt or
  request that is never answered, or the end of the fuel that bounds the number of nested
  screens of a run.
\<close>

datatype 'a result = Val 'a | Throw js_error | Halt halt

type_synonym 'a prog = "state \<Rightarrow> 'a result \<times> state"

definition return :: "'a \<Rightarrow> 'a prog" where
  "return x st = (Val x, st)"

definition throw :: "js_error \<Rightarrow> 'a prog" where
  "throw e st = (Throw e, st)"

definition bind :: "'a prog \<Rightarrow> ('a \<Rightarrow> 'b prog) \<Rightarrow> 'b prog" where
  "bind m f st =
     (case m st of
        (Val x, st') \<Rightarrow> f x st'
      | (Throw e, st') \<Rightarrow> (Throw e, st')
      | (Halt h, st') \<Rightarrow> (Halt h, st'))"

definition try_catch :: "'a prog \<Rightarrow> (js_error \<Rightarrow> 'a prog) \<Rightarrow> 'a prog" where
  "try_catch m handler st =
     (case m st of
        (Throw e, st') \<Rightarrow> handler e st'
      | other \<Rightarrow> other)"

definition emit :: "event \<Rightarrow> unit prog" where
  "emit e st = (Val (), st\<lparr>out := out st @ [e]\<rparr>)"

definition emit_all :: "event list \<Rightarrow> unit prog" where
  "emit_all es st = (Val (), st\<lparr>out := out st @ es\<rparr>)"

definition process_exit :: "nat \<Rightarrow> 'a prog" where
  "process_exit code st = (Halt (Exited code), st)"

definition sleep :: "nat \<Rightarrow> unit prog" where
  \<comment> \<open>\<open>await new Promise(resolve => setTimeout(resolve, ms))\<close>\<close>
  "sleep millis = emit (Sleep millis)"

definition ask :: "prompt \<Rightarrow> (input \<Rightarrow> 'a option) \<Rightarrow> 'a prog" where
  \<comment> \<open>\<open>inquirer.prompt\<close>: shows the question and takes the next input, which is an answer of
      the kind asked for or the failure of the prompt.\<close>
  "ask q decode st =
     (let st1 = st\<lparr>out := out st @ [Asked q]\<rparr>
      in case ins st of
           [] \<Rightarrow> (Halt Waiting, st1)
         | Prompt_fails m # later \<Rightarrow> (Throw (Plain_error m), st1\<lparr>ins := later\<rparr>)
         | i # later \<Rightarrow>
             (case decode i of
                None \<Rightarrow> (Halt Waiting, st1)
              | Some a \<Rightarrow> (Val a, st1\<lparr>ins := later\<rparr>)))"

definition http :: "request \<Rightarrow> response prog" where
  \<comment> \<open>An axios call: resolves with the response on a 2xx status, rejects otherwise.\<close>
  "http req st =
     (let st1 = st\<lparr>out := out st @ [Sent req]\<rparr>
      in case ins st of
           Http_ok r # later \<Rightarrow> (Val r, st1\<lparr>ins := later\<rparr>)
         | Http_error e # later \<Rightarrow> (Throw e, st1\<lparr>ins := later\<rparr>)
         | _ \<Rightarrow> (Halt Waiting, st1))"

subsection \<open>The file system\<close>

definition statSync :: "state \<Rightarrow> string \<Rightarrow> nat option" where
  \<comment> \<open>The \<open>size\<close> that \<open>fs.statSync\<close> reports; \<open>None\<close> when nothing is at the path.\<close>
  "statSync st p = (case disk st p of Some content \<Rightarrow> Some (length content) | None \<Rightarrow> dirs st p)"

definition existsSync :: "state \<Rightarrow> string \<Rightarrow> bool" where
  "existsSync st p = (statSync st p \<noteq> None)"

definition directory_of :: "string \<Rightarrow> string" where
  \<comment> \<open>The directory that holds the entry named by a path: the path without its last
      segment, \<open>.\<close> for a single segment.\<close>
  "directory_of p =
     (let segs = split_on (CHR ''/'') p
      in if length segs \<le> 1 then ''.''
         else if join_with ''/'' (butlast segs) = [] then ''/''
         else join_with ''/'' (butlast segs))"

definition open_error :: "string \<Rightarrow> string \<Rightarrow> string" where
  \<comment> \<open>The message of the error that Node.js throws when \<open>open\<close> fails.\<close>
  "open_error reason p = reason @ '', open '' @ [squote] @ p @ [squote]"

definition write_failure ::
  "(string \<rightharpoonup> string) \<Rightarrow> (string \<rightharpoonup> nat) \<Rightarrow> (string \<rightharpoonup> string) \<Rightarrow> string \<Rightarrow> string option" where
  \<comment> \<open>Why a file cannot be written at a path, given the files, the directories and the
      refusals of the operating system: the path is empty or holds a null byte; it names
      a directory (it ends in a slash, in \<open>.\<close> or in \<open>..\<close>, or a directory is there);
      the directory that should hold the file is a regular file or does not exist (the
      current directory and the root always exist); or the operating system refuses.
      The messages are those of Node.js on Linux; the one for a null byte goes on with
      the path as it was received, which is left out here.\<close>
  "write_failure fs ds refused p =
     (if p = [] then Some (open_error ''ENOENT: no such file or directory'' p)
      else if CHR 0x00 \<in> set p
      then Some (''The argument '' @ [squote] @ ''path'' @ [squote] @
                 '' must be a string, Uint8Array, or URL without null bytes.'')
      else if last (split_on (CHR ''/'') p) \<in> {[], ''.'', ''..''}
      then Some (open_error ''EISDIR: illegal operation on a directory'' p)
      else case ds p of
        Some blocks \<Rightarrow> Some (open_error ''EISDIR: illegal operation on a directory'' p)
      | None \<Rightarrow>
          if directory_of p = ''.'' then refused p
          else case fs (directory_of p) of
            Some content \<Rightarrow> Some (open_error ''ENOTDIR: not a directory'' p)
          | None \<Rightarrow>
              if directory_of p = ''/'' then refused p
              else case ds (directory_of p) of
                Some blocks \<Rightarrow> refused p
              | None \<Rightarrow> Some (open_error ''ENOENT: no such file or directory'' p))"

definition write_refusal :: "state \<Rightarrow> string \<Rightarrow> string option" where
  \<comment> \<open>The message of the error that \<open>fs.writeFileSync\<close> throws for a path, if it throws.\<close>
  "write_refusal st p = write_failure (disk st) (dirs st) (write_error st) p"

definition writeFileSync :: "string \<Rightarrow> string \<Rightarrow> unit prog" where
  \<comment> \<open>Replaces the whole content of the file, or throws and leaves everything as it is.\<close>
  "writeFileSync p content st =
     (case write_refusal st p of
        Some m \<Rightarrow> (Throw (Plain_error m), st)
      | None \<Rightarrow> (Val (), st\<lparr>disk := (disk st)(p \<mapsto> content)\<rparr>))"

definition readFileSync :: "string \<Rightarrow> string prog" where
  "readFileSync p st =
     (case disk st p of
        Some content \<Rightarrow> (Val content, st)
      | None \<Rightarrow> (Throw (Plain_error (''ENOENT: no such file or directory, open '' @
                                      [squote] @ p @ [squote])), st))"

definition directories_to :: "string \<Rightarrow> string list" where
  \<comment> \<open>The directories on the way to a path, from the outermost to the path itself.\<close>
  "directories_to p =
     filter (\<lambda>d. d \<noteq> [])
       (map (\<lambda>k. join_with ''/'' (take k (split_on (CHR ''/'') p)))
            [1 ..< Suc (length (split_on (CHR ''/'') p))])"

definition make_directory :: "(string \<rightharpoonup> nat) \<Rightarrow> string \<Rightarrow> (string \<rightharpoonup> nat)" where
  \<comment> \<open>A directory that is there is left alone; a fresh directory reports one block.\<close>
  "make_directory ds d = (case ds d of Some blocks \<Rightarrow> ds | None \<Rightarrow> ds(d \<mapsto> 4096))"

definition mkdirSync :: "string \<Rightarrow> unit prog" where
  \<comment> \<open>\<open>fs.mkdirSync(p, { recursive: true })\<close>: creates the directory and the directories
      on the way to it that are missing; throws when the operating system refuses or a
      regular file is in the way.\<close>
  "mkdirSync p st =
     (case mkdir_error st p of
        Some m \<Rightarrow> (Throw (Plain_error m), st)
      | None \<Rightarrow>
          (case find (\<lambda>d. disk st d \<noteq> None) (directories_to p) of
             Some d \<Rightarrow>
               (Throw (Plain_error
                  ((if d = p then ''EEXIST: file already exists'' else ''ENOTDIR: not a directory'')
                   @ '', mkdir '' @ [squote] @ p @ [squote])), st)
           | None \<Rightarrow>
               (Val (), st\<lparr>dirs := foldl make_directory (dirs st) (directories_to p)\<rparr>)))"

definition DOWNLOAD_DIR :: "state \<Rightarrow> string" where
  "DOWNLOAD_DIR st = path_join [homedir st, ''Downloads'', ''cfileshare'']"

definition MAX_FILE_SIZE :: nat where
  "MAX_FILE_SIZE = 5 * 1024 * 1024"

definition get :: "(state \<Rightarrow> 'a) \<Rightarrow> 'a prog" where
  "get f st = (Val (f st), st)"

section \<open>The upload validator\<close>

datatype validation = Valid | Invalid string

definition remove_quotes :: "string \<Rightarrow> string" where
  \<comment> \<open>\<open>replace(/["']/g, '')\<close>\<close>
  "remove_quotes s = filter (\<lambda>c. c \<noteq> dquote \<and> c \<noteq> squote) s"

definition filter_input :: "string \<Rightarrow> string" where
  \<comment> \<open>The \<open>filter\<close> of the file path prompt.\<close>
  "filter_input input = remove_quotes (trim input)"

definition validate :: "state \<Rightarrow> string \<Rightarrow> validation" where
  \<comment> \<open>The \<open>validate\<close> of the file path prompt: \<open>Valid\<close> is \<open>true\<close>, \<open>Invalid m\<close> the
      message it returns.\<close>
  "validate st input0 =
     (let input = remove_quotes (trim input0)
      in if input = [] then Invalid ''File path is required''
         else if \<not> existsSync st input then Invalid ''File does not exist''
         else if the (statSync st input) > MAX_FILE_SIZE
              then Invalid ''File size exceeds maximum limit of 5MB''
              else Valid)"

fun read_file_path ::
  "state \<Rightarrow> input list \<Rightarrow> event list \<Rightarrow> string result \<times> input list \<times> event list" where
  \<comment> \<open>The prompt shows the message of a rejected input and waits for the next one.\<close>
  "read_file_path st [] evs = (Halt Waiting, [], evs)"
| "read_file_path st (Path_input raw # later) evs =
     (case validate st raw of
        Valid \<Rightarrow> (Val (filter_input raw), later, evs)
      | Invalid m \<Rightarrow> read_file_path st later (evs @ [Rejected m]))"
| "read_file_path st (Prompt_fails m # later) evs = (Throw (Plain_error m), later, evs)"
| "read_file_path st (i # later) evs = (Halt Waiting, i # later, evs)"

definition ask_file_path :: "string prog" where
  "ask_file_path st =
     (case read_file_path st (ins st) [Asked File_path_prompt] of
        (r, later, evs) \<Rightarrow> (r, st\<lparr>ins := later, out := out st @ evs\<rparr>))"

section \<open>The screens\<close>

definition or_else :: "string option \<Rightarrow> string \<Rightarrow> string" where
  \<comment> \<open>\<open>v || d\<close>\<close>
  "or_else v d = (case v of None \<Rightarrow> d | Some s \<Rightarrow> if s = [] then d else s)"

fun access_error_text :: "js_error \<Rightarrow> string" where
  "access_error_text (Response_error status d m) =
     (if status = 404 then ''Endpoint not found''
      else if status = 401 then ''Invalid password''
      else or_else (data_error d) ''Unknown error'')"
| "access_error_text (Request_error m) = ''Server not responding. Is the server running?''"
| "access_error_text (Plain_error m) = m"

fun create_error_text :: "js_error \<Rightarrow> string" where
  "create_error_text (Response_error status d m) =
     or_else (data_error d) (or_else (data_message d) ''Unknown error'')"
| "create_error_text (Request_error m) = ''Server not responding. Is the server running?''"
| "create_error_text (Plain_error m) = m"

fun error_or_message :: "js_error \<Rightarrow> string" where
  \<comment> \<open>\<open>error.response?.data?.error || error.message\<close>\<close>
  "error_or_message (Response_error status d m) = or_else (data_error d) m"
| "error_or_message (Request_error m) = m"
| "error_or_message (Plain_error m) = m"

fun download_error_text :: "js_error \<Rightarrow> string" where
  \<comment> \<open>\<open>error.response?.data?.error || error.message\<close> in \<open>downloadFile\<close>, whose request
      asks for an \<open>arraybuffer\<close>: the body of a rejected response is then a buffer of bytes,
      which has no field \<open>error\<close>, and the message of the error is shown.\<close>
  "download_error_text (Response_error status d m) = m"
| "download_error_text (Request_error m) = m"
| "download_error_text (Plain_error m) = m"

fun menu_answer :: "input \<Rightarrow> menu_option option" where
  "menu_answer (Menu_choice option) = Some option"
| "menu_answer _ = None"

fun credentials_answer :: "input \<Rightarrow> (string \<times> string) option" where
  "credentials_answer (Credentials endpointName password) = Some (endpointName, password)"
| "credentials_answer _ = None"

fun action_answer :: "input \<Rightarrow> action option" where
  "action_answer (Action_choice a) = Some a"
| "action_answer _ = None"

fun index_answer :: "input \<Rightarrow> nat option" where
  "index_answer (Index_choice i) = Some i"
| "index_answer _ = None"

definition showHeader :: "unit prog" where
  "showHeader = bind (emit Clear) (\<lambda>_. emit Title)"

definition list_files :: "file_record list \<Rightarrow> unit prog" where
  "list_files fileList =
     (if length fileList = 0 then emit (Text ''No files found'')
      else bind (emit_all (map (\<lambda>(index, file). File_line (index + 1) (file_name file))
                               (enumerate 0 fileList)))
                (\<lambda>_. emit Blank))"

definition undefined_id_error :: js_error where
  "undefined_id_error =
     Plain_error (''Cannot read properties of undefined (reading '' @ [squote] @ ''id'' @
                  [squote] @ '')'')"

text \<open>
  Each screen is an \<open>async\<close> function of the source; awaiting another screen is a call.
  The first argument bounds the depth of nested screens.
\<close>

fun showMainMenu :: "nat \<Rightarrow> unit prog"
and accessEndpoint :: "nat \<Rightarrow> unit prog"
and createEndpoint :: "nat \<Rightarrow> unit prog"
and showFileManager :: "nat \<Rightarrow> string \<Rightarrow> file_record list \<Rightarrow> string \<Rightarrow> unit prog"
and uploadFile :: "nat \<Rightarrow> string \<Rightarrow> string \<Rightarrow> unit prog"
and downloadFile :: "nat \<Rightarrow> string \<Rightarrow> file_record list \<Rightarrow> string \<Rightarrow> unit prog"
where
  "showMainMenu 0 = (\<lambda>st. (Halt Out_of_fuel, st))"
| "showMainMenu (Suc n) =
     bind showHeader (\<lambda>_.
     bind (ask Main_menu_prompt menu_answer) (\<lambda>option.
     case option of
       Access_Endpoint \<Rightarrow> accessEndpoint n
     | Create_Endpoint \<Rightarrow> createEndpoint n
     | Exit_option \<Rightarrow> process_exit 0))"
| "accessEndpoint 0 = (\<lambda>st. (Halt Out_of_fuel, st))"
| "accessEndpoint (Suc n) =
     bind showHeader (\<lambda>_.
     try_catch
       (bind (ask Access_prompt credentials_answer) (\<lambda>(endpointName, password).
        bind (emit (Info ''Accessing endpoint...'')) (\<lambda>_.
        try_catch
          (bind (http (Get_site endpointName password)) (\<lambda>response.
           if truthy (auth_token (data response))
           then bind (writeFileSync ''.env''
                        (''auth_token='' @ the (auth_token (data response)))) (\<lambda>_.
                showFileManager n endpointName (files_or_empty response) password)
           else return ()))
          (\<lambda>error.
           bind (emit (Error_line (access_error_text error))) (\<lambda>_.
           bind (sleep 2000) (\<lambda>_.
           showMainMenu n))))))
       (\<lambda>error.
        bind (emit (Error_line (message error))) (\<lambda>_.
        bind (sleep 2000) (\<lambda>_.
        showMainMenu n))))"
| "createEndpoint 0 = (\<lambda>st. (Halt Out_of_fuel, st))"
| "createEndpoint (Suc n) =
     bind showHeader (\<lambda>_.
     try_catch
       (bind (ask Create_prompt credentials_answer) (\<lambda>(endpointName, password).
        bind (emit (Info ''Creating endpoint...'')) (\<lambda>_.
        try_catch
          (bind (http (Post_createsite endpointName password)) (\<lambda>response.
           bind (if truthy (auth_token (data response))
                 then bind (writeFileSync ''.env''
                              (''auth_token='' @ the (auth_token (data response)))) (\<lambda>_.
                      emit (Success ''Endpoint created successfully!''))
                 else return ()) (\<lambda>_.
           showMainMenu n)))
          (\<lambda>error.
           bind (emit (Error_line (create_error_text error))) (\<lambda>_.
           bind (sleep 2000) (\<lambda>_.
           showMainMenu n))))))
       (\<lambda>error.
        bind (emit (Error_line (message error))) (\<lambda>_.
        bind (sleep 2000) (\<lambda>_.
        showMainMenu n))))"
| "showFileManager 0 endpointName fileList password = (\<lambda>st. (Halt Out_of_fuel, st))"
| "showFileManager (Suc n) endpointName fileList password =
     bind showHeader (\<lambda>_.
     bind (emit (Info (''Endpoint: '' @ endpointName))) (\<lambda>_.
     bind (emit (Endpoint_line (''GET /site/'' @ endpointName))) (\<lambda>_.
     bind (list_files fileList) (\<lambda>_.
     bind (ask Action_prompt action_answer) (\<lambda>action.
     case action of
       Upload_File \<Rightarrow> uploadFile n endpointName password
     | Download_File \<Rightarrow>
         if length fileList > 0 then downloadFile n endpointName fileList password
         else bind (emit (Info ''No files to download'')) (\<lambda>_.
              showFileManager n endpointName fileList password)
     | Back_to_Menu \<Rightarrow> showMainMenu n)))))"
| "uploadFile 0 endpointName password = (\<lambda>st. (Halt Out_of_fuel, st))"
| "uploadFile (Suc n) endpointName password =
     try_catch
       (bind ask_file_path (\<lambda>filePath.
        bind (readFileSync ''.env'') (\<lambda>env.
        let authToken = dotenv_parse env ''auth_token'' in
        bind (emit (Info ''Uploading file...'')) (\<lambda>_.
        bind (http (Post_upload endpointName filePath authToken)) (\<lambda>_.
        bind (emit (Success ''File uploaded successfully!'')) (\<lambda>_.
        bind (http (Get_site endpointName password)) (\<lambda>siteResponse.
        showFileManager n endpointName (files_or_empty siteResponse) password)))))))
       (\<lambda>error.
        bind (emit (Error_line (error_or_message error))) (\<lambda>_.
        showFileManager n endpointName [] password))"
| "downloadFile 0 endpointName fileList password = (\<lambda>st. (Halt Out_of_fuel, st))"
| "downloadFile (Suc n) endpointName fileList password =
     try_catch
       (bind (ask (Select_file_prompt (map file_name fileList)) index_answer) (\<lambda>fileIndex.
        let selectedFile =
              (if fileIndex < length fileList then Some (fileList ! fileIndex) else None) in
        bind (readFileSync ''.env'') (\<lambda>env.
        let authToken = dotenv_parse env ''auth_token'' in
        bind (emit (Info ''Downloading file...'')) (\<lambda>_.
        case selectedFile of
          None \<Rightarrow> throw undefined_id_error
        | Some file \<Rightarrow>
            bind (http (Get_file (file_id file) authToken)) (\<lambda>response.
            bind (get DOWNLOAD_DIR) (\<lambda>dir.
            let downloadPath = path_join [dir, file_name file] in
            bind (writeFileSync downloadPath (bytes response)) (\<lambda>_.
            bind (emit (Success (''File downloaded to: '' @ downloadPath))) (\<lambda>_.
            showFileManager n endpointName fileList password))))))))
       (\<lambda>error.
        bind (emit (Error_line (download_error_text error))) (\<lambda>_.
        showFileManager n endpointName fileList password))"

declare showMainMenu.simps [simp del] accessEndpoint.simps [simp del]
  createEndpoint.simps [simp del] showFileManager.simps [simp del]
  uploadFile.simps [simp del] downloadFile.simps [simp del]

section \<open>Start of the program\<close>

definition styles_error :: js_error where
  "styles_error =
     Plain_error (''Cannot access '' @ [squote] @ ''styles'' @ [squote] @
                  '' before initialization'')"

definition use_styles :: "unit prog" where
  \<comment> \<open>Reading the \<open>const styles\<close> before its declaration has been evaluated throws.\<close>
  "use_styles st =
     (if styles_initialized st then (Val (), st) else (Throw styles_error, st))"

definition set_styles :: "bool \<Rightarrow> unit prog" where
  "set_styles b st = (Val (), st\<lparr>styles_initialized := b\<rparr>)"

definition main :: "nat \<Rightarrow> unit prog" where
  \<comment> \<open>The statements of the module, in order: the creation of the download directory
      (lines 19 to 26), the declaration of \<open>styles\<close> (line 29), the first screen (line 329).
      The last line prints \<open>Error:\<close> and the error as Node.js shows it; the event keeps
      the message of the error.\<close>
  "main n =
     bind (set_styles False) (\<lambda>_.
     bind (try_catch
             (bind (get DOWNLOAD_DIR) (\<lambda>dir.
              bind (get (\<lambda>st. existsSync st dir)) (\<lambda>found.
              if \<not> found then mkdirSync dir else return ())))
             (\<lambda>error.
              bind use_styles (\<lambda>_.
              bind (emit (Stderr (''Error creating downloads directory: '' @ message error))) (\<lambda>_.
              process_exit 1)))) (\<lambda>_.
     bind (set_styles True) (\<lambda>_.
     try_catch (showMainMenu n) (\<lambda>error. emit (Stderr (''Error: '' @ message error))))))"

definition node :: "nat \<Rightarrow> state \<Rightarrow> unit result \<times> state" where
  \<comment> \<open>The process: an exception that leaves the module is reported by Node.js, which exits
      with status 1; when nothing is left to do, the process exits with status 0.\<close>
  "node n st =
     (case main n st of
        (Throw e, st') \<Rightarrow> (Halt (Exited 1), st'\<lparr>out := out st' @ [Uncaught e]\<rparr>)
      | (Val u, st') \<Rightarrow> (Halt (Exited 0), st')
      | other \<Rightarrow> other)"

section \<open>The catch blocks\<close>

text \<open>
  Names for the \<open>catch\<close> blocks of the screens, as they stand in the definitions above:
  the outer block of \<open>accessEndpoint\<close> and \<open>createEndpoint\<close>, their inner blocks,
  and the blocks of \<open>uploadFile\<close> and \<open>downloadFile\<close>.
\<close>

definition menu_after_error :: "nat \<Rightarrow> js_error \<Rightarrow> unit prog" where
  "menu_after_error n error =
     bind (emit (Error_line (message error))) (\<lambda>_. bind (sleep 2000) (\<lambda>_. showMainMenu n))"

definition access_catch :: "nat \<Rightarrow> js_error \<Rightarrow> unit prog" where
  "access_catch n error =
     bind (emit (Error_line (access_error_text error))) (\<lambda>_.
     bind (sleep 2000) (\<lambda>_. showMainMenu n))"

definition create_catch :: "nat \<Rightarrow> js_error \<Rightarrow> unit prog" where
  "create_catch n error =
     bind (emit (Error_line (create_error_text error))) (\<lambda>_.
     bind (sleep 2000) (\<lambda>_. showMainMenu n))"

definition upload_catch :: "nat \<Rightarrow> string \<Rightarrow> string \<Rightarrow> js_error \<Rightarrow> unit prog" where
  "upload_catch n endpointName password error =
     bind (emit (Error_line (error_or_message error))) (\<lambda>_.
     showFileManager n endpointName [] password)"

definition download_catch ::
  "nat \<Rightarrow> string \<Rightarrow> file_record list \<Rightarrow> string \<Rightarrow> js_error \<Rightarrow> unit prog" where
  "download_catch n endpointName fileList password error =
     bind (emit (Error_line (download_error_text error))) (\<lambda>_.
     showFileManager n endpointName fileList password)"

section \<open>The credential file\<close>





section \<open>Example data\<close>

definition demo_dirs :: "string \<rightharpoonup> nat" where
  "demo_dirs = [''/home'' \<mapsto> 4096, ''/home/u'' \<mapsto> 4096, ''/home/u/Downloads'' \<mapsto> 4096,
                ''/home/u/Downloads/cfileshare'' \<mapsto> 4096]"

definition demo_state :: "input list \<Rightarrow> (string \<rightharpoonup> string) \<Rightarrow> state" where
  \<comment> \<open>A user \<open>u\<close> whose download directory exists, in a working directory with the
      given files.\<close>
  "demo_state inputs d =
     \<lparr>ins = inputs, disk = d, dirs = demo_dirs, out = [], homedir = ''/home/u'',
      mkdir_error = Map.empty, write_error = Map.empty, styles_initialized = True\<rparr>"

definition a_txt :: file_record where
  "a_txt = \<lparr>file_id = ''1'', file_name = ''a.txt''\<rparr>"

definition reply :: "string option \<Rightarrow> file_record list option \<Rightarrow> string \<Rightarrow> response" where
  "reply token fileList content =
     \<lparr>data = \<lparr>auth_token = token, files = fileList\<rparr>, bytes = content\<rparr>"

definition not_found :: js_error where
  "not_found = Response_error 404 \<lparr>data_error = Some ''Site not found'', data_message = None\<rparr>
                 ''Request failed with status code 404''"


definition upload_state :: state where
  "upload_state =
     demo_state [Path_input ''a.txt'', Http_ok (reply None None []),
                 Http_ok (reply (Some ''abc'') (Some [a_txt]) [])]
       [''.env'' \<mapsto> ''auth_token=abc'', ''a.txt'' \<mapsto> ''xyz'']"

definition download_state :: state where
  "download_state =
     demo_state [Index_choice 0, Http_ok (reply None None ''DATA'')]
       [''.env'' \<mapsto> ''auth_token=abc'']"

definition upload_state_without_credential :: state where
  "upload_state_without_credential = demo_state [Path_input ''a.txt''] [''a.txt'' \<mapsto> ''xyz'']"

definition download_state_without_credential :: state where
  "download_state_without_credential = demo_state [Index_choice 0] Map.empty"

definition create_state :: "response \<Rightarrow> state" where
  "create_state r = demo_state [Credentials ''demo'' ''pw'', Http_ok r] Map.empty"

definition rejected_state :: state where
  "rejected_state = demo_state [Credentials ''demo'' ''pw'', Http_error not_found] Map.empty"

definition malformed_credential_state :: state where
  "malformed_credential_state =
     demo_state [Path_input ''a.txt'', Http_ok (reply None None []),
                 Http_ok (reply (Some ''abc'') (Some [a_txt]) [])]
       [''.env'' \<mapsto> ''garbage'', ''a.txt'' \<mapsto> ''xyz'']"


definition unwritable_home_state :: state where
  \<comment> \<open>The home directory has no \<open>Downloads\<close> yet and does not allow to create it.\<close>
  "unwritable_home_state =
     (demo_state [Menu_choice Exit_option] Map.empty)
       \<lparr>dirs := [''/home'' \<mapsto> 4096, ''/home/u'' \<mapsto> 4096],
        mkdir_error := [''/home/u/Downloads/cfileshare'' \<mapsto> ''EACCES: permission denied'']\<rparr>"

definition credential_directory_state :: "input list \<Rightarrow> state" where
  \<comment> \<open>The working directory has a directory of the name \<open>.env\<close>.\<close>
  "credential_directory_state inputs =
     (demo_state inputs Map.empty)\<lparr>dirs := demo_dirs(''.env'' \<mapsto> 4096)\<rparr>"

definition unwritable_create_state :: state where
  "unwritable_create_state =
     credential_directory_state [Credentials ''demo'' ''pw'', Http_ok (reply (Some ''abc'') None [])]"

definition nested_file :: file_record where
  "nested_file = \<lparr>file_id = ''8'', file_name = ''sub/x.txt''\<rparr>"

definition nameless_file :: file_record where
  "nameless_file = \<lparr>file_id = ''9'', file_name = []\<rparr>"


declare dotenv_matches.simps [simp del] replace_by_group2.simps [simp del]

section \<open>Running the screens\<close>

lemma sleep_apply: "sleep millis st = (Val (), st\<lparr>out := out st @ [Sleep millis]\<rparr>)"
  by (simp add: sleep_def emit_def)

lemmas run_defs = bind_def try_catch_def emit_def emit_all_def ask_def http_def showHeader_def
  sleep_apply return_def throw_def writeFileSync_def readFileSync_def get_def process_exit_def
  Let_def showMainMenu.simps accessEndpoint.simps createEndpoint.simps showFileManager.simps
  uploadFile.simps downloadFile.simps

lemmas catch_defs = menu_after_error_def access_catch_def create_catch_def upload_catch_def
  download_catch_def

lemma access_rejected:
  assumes "ins st = Credentials endpointName password # Http_error e # later"
  shows "accessEndpoint (Suc n) st =
         try_catch (showMainMenu n) (menu_after_error n)
           (st\<lparr>ins := later,
               out := out st @ [Clear, Title, Asked Access_prompt, Info ''Accessing endpoint...'',
                                Sent (Get_site endpointName password),
                                Error_line (access_error_text e), Sleep 2000]\<rparr>)"
  using assms unfolding catch_defs by (cases st) (simp add: run_defs)



lemma access_no_token:
  assumes "ins st = Credentials endpointName password # Http_ok r # later"
    and "\<not> truthy (auth_token (data r))"
  shows "accessEndpoint (Suc n) st =
         (Val (), st\<lparr>ins := later,
               out := out st @ [Clear, Title, Asked Access_prompt, Info ''Accessing endpoint...'',
                                Sent (Get_site endpointName password)]\<rparr>)"
  using assms unfolding catch_defs by (cases st) (simp add: run_defs)

lemma create_rejected:
  assumes "ins st = Credentials endpointName password # Http_error e # later"
  shows "createEndpoint (Suc n) st =
         try_catch (showMainMenu n) (menu_after_error n)
           (st\<lparr>ins := later,
               out := out st @ [Clear, Title, Asked Create_prompt, Info ''Creating endpoint...'',
                                Sent (Post_createsite endpointName password),
                                Error_line (create_error_text e), Sleep 2000]\<rparr>)"
  using assms unfolding catch_defs by (cases st) (simp add: run_defs)

lemma create_token:
  assumes "ins st = Credentials endpointName password # Http_ok r # later"
    and "auth_token (data r) = Some token" and "token \<noteq> []"
    and "write_refusal st ''.env'' = None"
  shows "createEndpoint (Suc n) st =
         try_catch (try_catch (showMainMenu n) (create_catch n)) (menu_after_error n)
           (st\<lparr>out := out st @ [Clear, Title, Asked Create_prompt, Info ''Creating endpoint...'',
                                Sent (Post_createsite endpointName password),
                                Success ''Endpoint created successfully!''],
               ins := later,
               disk := (disk st)(''.env'' \<mapsto> ''auth_token='' @ token)\<rparr>)"
  using assms unfolding catch_defs by (cases st) (simp add: run_defs truthy_def write_refusal_def)

lemma create_token_refused:
  assumes "ins st = Credentials endpointName password # Http_ok r # later"
    and "auth_token (data r) = Some token" and "token \<noteq> []"
    and "write_refusal st ''.env'' = Some m"
  shows "createEndpoint (Suc n) st =
         try_catch (showMainMenu n) (menu_after_error n)
           (st\<lparr>ins := later,
               out := out st @ [Clear, Title, Asked Create_prompt, Info ''Creating endpoint...'',
                                Sent (Post_createsite endpointName password),
                                Error_line m, Sleep 2000]\<rparr>)"
  using assms unfolding catch_defs by (cases st) (simp add: run_defs truthy_def write_refusal_def)

lemma create_no_token:
  assumes "ins st = Credentials endpointName password # Http_ok r # later"
    and "\<not> truthy (auth_token (data r))"
  shows "createEndpoint (Suc n) st =
         try_catch (try_catch (showMainMenu n) (create_catch n)) (menu_after_error n)
           (st\<lparr>ins := later,
               out := out st @ [Clear, Title, Asked Create_prompt, Info ''Creating endpoint...'',
                                Sent (Post_createsite endpointName password)]\<rparr>)"
  using assms unfolding catch_defs by (cases st) (simp add: run_defs)

lemma ask_file_path_valid:
  assumes "ins st = Path_input raw # later" and "validate st raw = Valid"
  shows "ask_file_path st =
         (Val (filter_input raw), st\<lparr>ins := later, out := out st @ [Asked File_path_prompt]\<rparr>)"
  using assms by (simp add: ask_file_path_def)

lemma upload_done:
  assumes "ins st = Path_input raw # Http_ok r1 # Http_ok r2 # later"
    and "validate st raw = Valid" and "disk st ''.env'' = Some env"
  shows "uploadFile (Suc n) endpointName password st =
         try_catch (showFileManager n endpointName (files_or_empty r2) password)
           (upload_catch n endpointName password)
           (st\<lparr>ins := later,
               out := out st @ [Asked File_path_prompt, Info ''Uploading file...'',
                 Sent (Post_upload endpointName (filter_input raw) (dotenv_parse env ''auth_token'')),
                 Success ''File uploaded successfully!'',
                 Sent (Get_site endpointName password)]\<rparr>)"
  using assms unfolding catch_defs by (cases st) (simp add: run_defs ask_file_path_valid)

lemma upload_no_credential:
  assumes "ins st = Path_input raw # later"
    and "validate st raw = Valid" and "disk st ''.env'' = None"
  shows "uploadFile (Suc n) endpointName password st =
         showFileManager n endpointName [] password
           (st\<lparr>ins := later,
               out := out st @ [Asked File_path_prompt,
                 Error_line (''ENOENT: no such file or directory, open '' @ [squote] @ ''.env'' @ [squote])]\<rparr>)"
  using assms unfolding catch_defs by (cases st) (simp add: run_defs ask_file_path_valid)

lemma download_done:
  assumes "ins st = Index_choice i # Http_ok r # later"
    and "i < length fileList" and "disk st ''.env'' = Some env"
    and "write_refusal st (path_join [DOWNLOAD_DIR st, file_name (fileList ! i)]) = None"
  shows "downloadFile (Suc n) endpointName fileList password st =
         try_catch (showFileManager n endpointName fileList password)
           (download_catch n endpointName fileList password)
           (st\<lparr>out := out st @ [Asked (Select_file_prompt (map file_name fileList)),
                 Info ''Downloading file...'',
                 Sent (Get_file (file_id (fileList ! i)) (dotenv_parse env ''auth_token'')),
                 Success (''File downloaded to: '' @
                          path_join [DOWNLOAD_DIR st, file_name (fileList ! i)])],
               ins := later,
               disk := (disk st)(path_join [DOWNLOAD_DIR st, file_name (fileList ! i)] \<mapsto> bytes r)\<rparr>)"
  using assms unfolding catch_defs
  by (cases st) (simp add: run_defs DOWNLOAD_DIR_def write_refusal_def)

lemma download_refused:
  assumes "ins st = Index_choice i # Http_ok r # later"
    and "i < length fileList" and "disk st ''.env'' = Some env"
    and "write_refusal st (path_join [DOWNLOAD_DIR st, file_name (fileList ! i)]) = Some m"
  shows "downloadFile (Suc n) endpointName fileList password st =
         showFileManager n endpointName fileList password
           (st\<lparr>ins := later,
               out := out st @ [Asked (Select_file_prompt (map file_name fileList)),
                 Info ''Downloading file...'',
                 Sent (Get_file (file_id (fileList ! i)) (dotenv_parse env ''auth_token'')),
                 Error_line m]\<rparr>)"
  using assms unfolding catch_defs
  by (cases st) (simp add: run_defs DOWNLOAD_DIR_def write_refusal_def)

lemma download_no_credential:
  assumes "ins st = Index_choice i # later" and "disk st ''.env'' = None"
  shows "downloadFile (Suc n) endpointName fileList password st =
         showFileManager n endpointName fileList password
           (st\<lparr>ins := later,
               out := out st @ [Asked (Select_file_prompt (map file_name fileList)),
                 Error_line (''ENOENT: no such file or directory, open '' @ [squote] @ ''.env'' @ [squote])]\<rparr>)"
  using assms unfolding catch_defs by (cases st) (simp add: run_defs)


lemmas demo_defs = demo_state_def a_txt_def reply_def not_found_def

lemmas fs_defs = existsSync_def statSync_def remove_quotes_def trim_def is_ws_def squote_def
  dquote_def

lemma dotenv_parse_abc: "dotenv_parse ''auth_token=abc'' ''auth_token'' = Some ''abc''"
  by code_simp

lemma dotenv_parse_garbage: "dotenv_parse ''garbage'' ''auth_token'' = None"
  by code_simp

lemma download_path_a_txt:
  "path_join [''/home/u/Downloads/cfileshare'', ''a.txt''] =
   ''/home/u/Downloads/cfileshare/a.txt''"
  by code_simp

lemma download_dir_home_u:
  "path_join [''/home/u'', ''Downloads'', ''cfileshare''] = ''/home/u/Downloads/cfileshare''"
  by code_simp

lemma validate_a_txt: "validate (demo_state i (d(''a.txt'' \<mapsto> ''xyz''))) ''a.txt'' = Valid"
  by (simp add: validate_def Let_def fs_defs MAX_FILE_SIZE_def demo_state_def)

lemma filter_input_a_txt: "filter_input ''a.txt'' = ''a.txt''"
  by (simp add: filter_input_def fs_defs)

lemma file_manager_waits:
  assumes "ins st = []"
  shows "showFileManager (Suc n) endpointName fileList password st =
         (Halt Waiting,
          st\<lparr>out := out st @
                 [Clear, Title, Info (''Endpoint: '' @ endpointName),
                  Endpoint_line (''GET /site/'' @ endpointName)] @
                 (if fileList = [] then [Text ''No files found'']
                  else map (\<lambda>(index, file). File_line (index + 1) (file_name file))
                           (enumerate 0 fileList) @ [Blank]) @
                 [Asked Action_prompt]\<rparr>)"
  using assms by (cases st) (simp add: run_defs list_files_def)

lemma main_menu_waits:
  assumes "ins st = []"
  shows "showMainMenu (Suc n) st =
         (Halt Waiting, st\<lparr>out := out st @ [Clear, Title, Asked Main_menu_prompt]\<rparr>)"
  using assms by (cases st) (simp add: run_defs)

lemma directory_of_env: "directory_of ''.env'' = ''.''"
  by (simp add: directory_of_def)

lemma write_failure_env:
  "write_failure fs ds refused ''.env'' =
     (case ds ''.env'' of
        Some blocks \<Rightarrow> Some (open_error ''EISDIR: illegal operation on a directory'' ''.env'')
      | None \<Rightarrow> refused ''.env'')"
  by (simp add: write_failure_def directory_of_env)





lemma demo_env_writable: "write_refusal (demo_state i d) ''.env'' = None"
  by (simp add: write_refusal_def write_failure_env demo_state_def demo_dirs_def)

lemma credential_directory_refusal:
  "write_refusal (credential_directory_state i) ''.env'' =
     Some (''EISDIR: illegal operation on a directory, open '' @ [squote] @ ''.env'' @ [squote])"
  by (simp add: write_refusal_def write_failure_env credential_directory_state_def
      demo_state_def open_error_def)

lemma directory_of_a_txt:
  "directory_of ''/home/u/Downloads/cfileshare/a.txt'' = ''/home/u/Downloads/cfileshare''"
  by code_simp


lemma last_segment_a_txt: "last (split_on (CHR ''/'') ''/home/u/Downloads/cfileshare/a.txt'') = ''a.txt''"
  by code_simp


lemma demo_a_txt_writable:
  "write_refusal (demo_state i d) ''/home/u/Downloads/cfileshare/a.txt'' =
     (case d ''/home/u/Downloads/cfileshare'' of
        None \<Rightarrow> None
      | Some content \<Rightarrow>
          Some (open_error ''ENOTDIR: not a directory'' ''/home/u/Downloads/cfileshare/a.txt''))"
  by (simp add: write_refusal_def write_failure_def directory_of_a_txt last_segment_a_txt
      demo_state_def demo_dirs_def split: option.split)


lemma download_dir_itself:
  "path_join [''/home/u/Downloads/cfileshare'', []] = ''/home/u/Downloads/cfileshare''"
  by code_simp

lemma last_segment_download_dir:
  "last (split_on (CHR ''/'') ''/home/u/Downloads/cfileshare'') = ''cfileshare''"
  by code_simp

lemma demo_download_dir_refused:
  "write_refusal (demo_state i d) ''/home/u/Downloads/cfileshare'' =
     Some (open_error ''EISDIR: illegal operation on a directory'' ''/home/u/Downloads/cfileshare'')"
  by (simp add: write_refusal_def write_failure_def last_segment_download_dir
      demo_state_def demo_dirs_def)

lemma download_state_facts:
  "ins download_state = Index_choice 0 # Http_ok (reply None None ''DATA'') # []"
  "disk download_state ''.env'' = Some ''auth_token=abc''"
  "out download_state = []"
  "disk download_state = [''.env'' \<mapsto> ''auth_token=abc'']"
  "DOWNLOAD_DIR download_state = ''/home/u/Downloads/cfileshare''"
  by (simp_all add: download_state_def demo_state_def DOWNLOAD_DIR_def download_dir_home_u)

lemma download_state_a_txt_writable:
  "write_refusal download_state (path_join [DOWNLOAD_DIR download_state, file_name ([a_txt] ! 0)])
     = None"
  by (simp add: download_state_facts a_txt_def download_path_a_txt)
     (simp add: download_state_def demo_a_txt_writable)

lemma download_state_nameless_refused:
  "write_refusal download_state
     (path_join [DOWNLOAD_DIR download_state, file_name ([nameless_file] ! 0)]) =
   Some (''EISDIR: illegal operation on a directory, open '' @ [squote] @
         ''/home/u/Downloads/cfileshare'' @ [squote])"
  by (simp add: download_state_facts nameless_file_def download_dir_itself)
     (simp add: download_state_def demo_download_dir_refused open_error_def)

text \<open>
  File names for which the download directory of the example holds no place for a file:
  the empty name and \<open>.\<close> name the download directory itself, \<open>..\<close> names the
  directory above it, and \<open>sub/x.txt\<close> asks for a directory that does not exist.
\<close>

lemma directories_to_download_dir:
  "directories_to ''/home/u/Downloads/cfileshare'' =
     [''/home'', ''/home/u'', ''/home/u/Downloads'', ''/home/u/Downloads/cfileshare'']"
  by code_simp

lemma download_refusals:
  "write_refusal download_state (path_join [DOWNLOAD_DIR download_state, []]) =
     Some (open_error ''EISDIR: illegal operation on a directory'' ''/home/u/Downloads/cfileshare'')"
  "write_refusal download_state (path_join [DOWNLOAD_DIR download_state, ''.'']) =
     Some (open_error ''EISDIR: illegal operation on a directory'' ''/home/u/Downloads/cfileshare'')"
  "write_refusal download_state (path_join [DOWNLOAD_DIR download_state, ''..'']) =
     Some (open_error ''EISDIR: illegal operation on a directory'' ''/home/u/Downloads'')"
  "write_refusal download_state (path_join [DOWNLOAD_DIR download_state, file_name nested_file]) =
     Some (open_error ''ENOENT: no such file or directory''
             ''/home/u/Downloads/cfileshare/sub/x.txt'')"
  by code_simp+

lemma main_mkdir_fails:
  assumes "mkdir_error st (DOWNLOAD_DIR st) = Some m" and "\<not> existsSync st (DOWNLOAD_DIR st)"
  shows "main n st = (Throw styles_error, st\<lparr>styles_initialized := False\<rparr>)"
proof -
  have "DOWNLOAD_DIR (st\<lparr>styles_initialized := False\<rparr>) = DOWNLOAD_DIR st"
    and "existsSync (st\<lparr>styles_initialized := False\<rparr>) p = existsSync st p" for p
    by (simp_all add: DOWNLOAD_DIR_def existsSync_def statSync_def split: option.split)
  with assms show ?thesis
    by (simp add: main_def bind_def try_catch_def get_def set_styles_def use_styles_def
        mkdirSync_def styles_error_def)
qed


section \<open>The parse loop moves on\<close>

text \<open>
  A match of \<open>LINE\<close> contains at least one character of a key, so every round of the loop
  of \<open>dotenv.parse\<close> continues after a shorter remainder of the text: the guard in
  \<open>dotenv_matches\<close>, which makes the recursion terminate, never cuts the loop short.
\<close>

lemma ms_rest_le: "m \<in> set (ms r st) \<Longrightarrow> length (rest m) \<le> length (rest st)"
proof (induction r st arbitrary: m rule: ms.induct)
  case (3 a b st)
  then obtain x where x: "x \<in> set (ms a st)" "m \<in> set (ms b x)"
    by auto
  from "3.IH"(1) [OF x(1)] "3.IH"(2) [OF x(1) x(2)] show ?case
    by simp
next
  case (5 a st)
  show ?case
  proof (cases "m = st")
    case True
    then show ?thesis by simp
  next
    case False
    from "5.prems" [unfolded ms.simps(5) [of a st]] have "m \<in> set (concat (map (\<lambda>st'. if length (rest st') < length (rest st) then ms (Star a) st' else []) (ms a st)) @ [st])"
      .
    with False obtain x where x: "x \<in> set (ms a st)" "length (rest x) < length (rest st)"
      "m \<in> set (ms (Star a) x)"
      by (auto simp del: ms.simps split: if_splits)
    from "5.IH"(2) [OF x] x(2) show ?thesis
      by simp
  qed
next
  case (6 a st)
  show ?case
  proof (cases "m = st")
    case True
    then show ?thesis by simp
  next
    case False
    from "6.prems" [unfolded ms.simps(6) [of a st]] have "m \<in> set (st # concat (map (\<lambda>st'. if length (rest st') < length (rest st) then ms (Lazy a) st' else []) (ms a st)))"
      .
    with False obtain x where x: "x \<in> set (ms a st)" "length (rest x) < length (rest st)"
      "m \<in> set (ms (Lazy a) x)"
      by (auto simp del: ms.simps split: if_splits)
    from "6.IH"(2) [OF x] x(2) show ?thesis
      by simp
  qed
next
  case (2 P st)
  then show ?case by (cases st) (auto split: list.splits if_splits)
next
  case (7 st)
  then show ?case by (auto split: option.splits if_splits)
next
  case (8 st)
  then show ?case by (auto split: list.splits if_splits)
next
  case (9 i a st)
  then show ?case by auto
next
  case (4 a b st)
  then show ?case by auto
qed simp

lemma ms_seq_elim:
  assumes "m \<in> set (ms (Seq a b) st)"
  obtains x where "x \<in> set (ms a st)" "m \<in> set (ms b x)"
  using assms by auto

lemma ms_cls_less: "m \<in> set (ms (Cls P) st) \<Longrightarrow> length (rest m) < length (rest st)"
  by (cases st) (auto split: list.splits if_splits)

lemma ms_plus_less:
  assumes "m \<in> set (ms (Plus (Cls P)) st)"
  shows "length (rest m) < length (rest st)"
proof -
  from assms obtain x where x: "x \<in> set (ms (Cls P) st)" "m \<in> set (ms (Star (Cls P)) x)"
    unfolding Plus_def by (elim ms_seq_elim)
  from ms_cls_less [OF x(1)] ms_rest_le [OF x(2)] show ?thesis
    by simp
qed

lemma ms_cap_elim:
  assumes "m \<in> set (ms (Cap i a) st)"
  obtains x where "x \<in> set (ms a st)" "rest m = rest x"
  using assms by auto

lemma LINE_progress:
  assumes "m \<in> set (ms LINE st)"
  shows "length (rest m) < length (rest st)"
proof -
  from assms obtain s1 s2 s3 s4 s5 s6 s7 s8 where
    s: "s1 \<in> set (ms Bol st)" "s2 \<in> set (ms (Star (Cls is_ws)) s1)"
       "s3 \<in> set (ms (Opt (Seq (Lit ''export'') (Plus (Cls is_ws)))) s2)"
       "s4 \<in> set (ms (Cap 1 (Plus (Cls (\<lambda>c. is_word_char c \<or> c = CHR ''.'' \<or> c = CHR ''-'')))) s3)"
       "s5 \<in> set (ms (Alt (seqs [Star (Cls is_ws), Chr (CHR ''=''), Lazy (Cls is_ws)])
                          (seqs [Chr (CHR '':''), Lazy_plus (Cls is_ws)])) s4)"
       "s6 \<in> set (ms (Opt (Cap 2
              (Alt (quoted_by squote)
                (Alt (quoted_by dquote)
                  (Alt (quoted_by bquote)
                    (Plus (Cls (\<lambda>c. c \<noteq> CHR ''#'' \<and> c \<noteq> CHR 0x0D \<and> c \<noteq> CHR 0x0A)))))))) s5)"
       "s7 \<in> set (ms (Star (Cls is_ws)) s6)"
       "s8 \<in> set (ms (Opt (Seq (Chr (CHR ''#'')) (Star (Cls (\<lambda>c. \<not> is_line_terminator c))))) s7)"
       "m \<in> set (ms Eol s8)"
    unfolding LINE_def seqs.simps
    by (elim ms_seq_elim)
  from s(4) obtain x where
    x: "x \<in> set (ms (Plus (Cls (\<lambda>c. is_word_char c \<or> c = CHR ''.'' \<or> c = CHR ''-''))) s3)"
       "rest s4 = rest x"
    by (elim ms_cap_elim)
  from ms_plus_less [OF x(1)] x(2) have "length (rest s4) < length (rest s3)"
    by simp
  with ms_rest_le [OF s(1)] ms_rest_le [OF s(2)] ms_rest_le [OF s(3)] ms_rest_le [OF s(5)]
    ms_rest_le [OF s(6)] ms_rest_le [OF s(7)] ms_rest_le [OF s(8)] ms_rest_le [OF s(9)]
  show ?thesis
    by simp
qed

lemma find_match_progress:
  "find_match LINE p s = Some m \<Longrightarrow> length (rest m) < length s"
proof (induction s arbitrary: p)
  case Nil
  then have "m \<in> set (ms LINE (MState p [] (\<lambda>_. None)))"
    by (auto split: list.splits)
  from LINE_progress [OF this] show ?case by simp
next
  case (Cons x xs)
  show ?case
  proof (cases "ms LINE (MState p (x # xs) (\<lambda>_. None))")
    case Nil
    with Cons.prems have "find_match LINE (Some x) xs = Some m" by simp
    from Cons.IH [OF this] show ?thesis by simp
  next
    case (Cons m' ts)
    with Cons.prems have "m \<in> set (ms LINE (MState p (x # xs) (\<lambda>_. None)))" by simp
    from LINE_progress [OF this] show ?thesis by simp
  qed
qed

lemma dotenv_matches_moves_on:
  "dotenv_matches p s =
     (case find_match LINE p s of
        None \<Rightarrow> []
      | Some m \<Rightarrow> (group m 1, dotenv_value (group m 2)) # dotenv_matches (prev m) (rest m))"
  by (subst dotenv_matches.simps) (simp add: find_match_progress split: option.split)

section \<open>Reading the credential line back\<close>





















section \<open>Joining a directory and a plain name\<close>


























section \<open>The upload validator checks the normalised path\<close>

text \<open>
  C2, as the code has it: the validator does not look at the text it is given but at that
  text with surrounding white space trimmed and every single and double quote removed.
  If nothing is left, the input is rejected as missing; if nothing exists at the
  normalised path, it is rejected; if what is there exceeds \<open>5 * 1024 * 1024\<close> bytes,
  it is rejected; otherwise it is accepted.
\<close>

theorem validate_normalized_path:
  "(remove_quotes (trim input) = [] \<longrightarrow> validate st input = Invalid ''File path is required'') \<and>
   (remove_quotes (trim input) \<noteq> [] \<and> \<not> existsSync st (remove_quotes (trim input)) \<longrightarrow>
      validate st input = Invalid ''File does not exist'') \<and>
   (remove_quotes (trim input) \<noteq> [] \<and> statSync st (remove_quotes (trim input)) = Some n \<and>
      n > 5 * 1024 * 1024 \<longrightarrow>
      validate st input = Invalid ''File size exceeds maximum limit of 5MB'') \<and>
   (remove_quotes (trim input) \<noteq> [] \<and> statSync st (remove_quotes (trim input)) = Some n \<and>
      n \<le> 5 * 1024 * 1024 \<longrightarrow>
      validate st input = Valid)"
  by (simp add: validate_def Let_def existsSync_def MAX_FILE_SIZE_def)

theorem validate_normalized_path_witness:
  "remove_quotes (trim ''  '') = [] \<and>
   validate (demo_state [] [''a.txt'' \<mapsto> ''xyz'']) ''  '' = Invalid ''File path is required'' \<and>
   \<not> existsSync (demo_state [] [''a.txt'' \<mapsto> ''xyz'']) (remove_quotes (trim ''b.txt'')) \<and>
   validate (demo_state [] [''a.txt'' \<mapsto> ''xyz'']) ''b.txt'' = Invalid ''File does not exist'' \<and>
   statSync (demo_state [] [''big'' \<mapsto> replicate 5242881 (CHR ''x'')])
     (remove_quotes (trim ''big'')) = Some 5242881 \<and>
   validate (demo_state [] [''big'' \<mapsto> replicate 5242881 (CHR ''x'')]) ''big'' =
     Invalid ''File size exceeds maximum limit of 5MB'' \<and>
   statSync (demo_state [] [''a.txt'' \<mapsto> ''xyz'']) (remove_quotes (trim '' a.txt'')) = Some 3 \<and>
   validate (demo_state [] [''a.txt'' \<mapsto> ''xyz'']) '' a.txt'' = Valid"
proof -
  have e: "remove_quotes (trim ''  '') = []"
    by (simp add: fs_defs)
  have m: "remove_quotes (trim ''b.txt'') \<noteq> [] \<and>
           \<not> existsSync (demo_state [] [''a.txt'' \<mapsto> ''xyz'']) (remove_quotes (trim ''b.txt''))"
    by (simp add: fs_defs demo_state_def demo_dirs_def)
  have b: "remove_quotes (trim ''big'') \<noteq> [] \<and>
           statSync (demo_state [] [''big'' \<mapsto> replicate 5242881 (CHR ''x'')])
             (remove_quotes (trim ''big'')) = Some 5242881 \<and> (5242881::nat) > 5 * 1024 * 1024"
    by (simp add: fs_defs demo_state_def demo_dirs_def)
  have s: "remove_quotes (trim '' a.txt'') \<noteq> [] \<and>
           statSync (demo_state [] [''a.txt'' \<mapsto> ''xyz'']) (remove_quotes (trim '' a.txt'')) = Some 3
           \<and> (3::nat) \<le> 5 * 1024 * 1024"
    by (simp add: fs_defs demo_state_def demo_dirs_def)
  have r1: "validate (demo_state [] [''a.txt'' \<mapsto> ''xyz'']) ''  '' = Invalid ''File path is required''"
    using e validate_normalized_path [of "''  ''" "demo_state [] [''a.txt'' \<mapsto> ''xyz'']" 0]
    by blast
  have r2: "validate (demo_state [] [''a.txt'' \<mapsto> ''xyz'']) ''b.txt'' = Invalid ''File does not exist''"
    using m validate_normalized_path [of "''b.txt''" "demo_state [] [''a.txt'' \<mapsto> ''xyz'']" 0]
    by blast
  have r3: "validate (demo_state [] [''big'' \<mapsto> replicate 5242881 (CHR ''x'')]) ''big'' =
            Invalid ''File size exceeds maximum limit of 5MB''"
    using b validate_normalized_path [of "''big''"
        "demo_state [] [''big'' \<mapsto> replicate 5242881 (CHR ''x'')]" 5242881]
    by blast
  have r4: "validate (demo_state [] [''a.txt'' \<mapsto> ''xyz'']) '' a.txt'' = Valid"
    using s validate_normalized_path [of "'' a.txt''" "demo_state [] [''a.txt'' \<mapsto> ''xyz'']" 3]
    by blast
  from e m b s r1 r2 r3 r4 show ?thesis
    by (intro conjI) (erule conjE | assumption)+
qed

text \<open>
  C2 as stated fails for a path in quotes and for a path that starts with a blank:
  nothing exists at the path \<open>'a.txt'\<close> with its quotes, nor at the path \<open> a.txt\<close>
  with its blank, and the validator accepts both because \<open>a.txt\<close> exists.
\<close>

theorem validate_quoted_path_counterexample:
  "\<not> existsSync (demo_state [] [''a.txt'' \<mapsto> ''xyz'']) ([squote] @ ''a.txt'' @ [squote]) \<and>
   validate (demo_state [] [''a.txt'' \<mapsto> ''xyz'']) ([squote] @ ''a.txt'' @ [squote]) = Valid \<and>
   \<not> existsSync (demo_state [] [''a.txt'' \<mapsto> ''xyz'']) '' a.txt'' \<and>
   validate (demo_state [] [''a.txt'' \<mapsto> ''xyz'']) '' a.txt'' = Valid"
  by (simp add: validate_def Let_def fs_defs MAX_FILE_SIZE_def demo_state_def demo_dirs_def)

section \<open>After an upload the list is fetched again, after a download it is kept\<close>

text \<open>
  C1, as the code has it.  When an upload has succeeded, \<open>uploadFile\<close> sends
  \<open>GET /site/<name>\<close> again and shows the file manager with the list of that response
  (the empty list when the response has none).  When a download has succeeded,
  \<open>downloadFile\<close> sends no further request and shows the file manager with the list it
  was called with; it does the same when the file could not be written.
\<close>

theorem file_list_after_transfer:
  "(ins st = Path_input raw # Http_ok r1 # Http_ok r2 # later \<and> validate st raw = Valid \<and>
    disk st ''.env'' = Some env \<longrightarrow>
      uploadFile (Suc n) endpointName password st =
        try_catch (showFileManager n endpointName (files_or_empty r2) password)
          (upload_catch n endpointName password)
          (st\<lparr>ins := later,
              out := out st @ [Asked File_path_prompt, Info ''Uploading file...'',
                Sent (Post_upload endpointName (filter_input raw) (dotenv_parse env ''auth_token'')),
                Success ''File uploaded successfully!'',
                Sent (Get_site endpointName password)]\<rparr>)) \<and>
   (ins st = Index_choice i # Http_ok r # later \<and> i < length fileList \<and>
    disk st ''.env'' = Some env \<and>
    write_refusal st (path_join [DOWNLOAD_DIR st, file_name (fileList ! i)]) = None \<longrightarrow>
      downloadFile (Suc n) endpointName fileList password st =
        try_catch (showFileManager n endpointName fileList password)
          (download_catch n endpointName fileList password)
          (st\<lparr>out := out st @ [Asked (Select_file_prompt (map file_name fileList)),
                Info ''Downloading file...'',
                Sent (Get_file (file_id (fileList ! i)) (dotenv_parse env ''auth_token'')),
                Success (''File downloaded to: '' @
                         path_join [DOWNLOAD_DIR st, file_name (fileList ! i)])],
              ins := later,
              disk := (disk st)(path_join [DOWNLOAD_DIR st, file_name (fileList ! i)] \<mapsto>
                                bytes r)\<rparr>)) \<and>
   (ins st = Index_choice i # Http_ok r # later \<and> i < length fileList \<and>
    disk st ''.env'' = Some env \<and>
    write_refusal st (path_join [DOWNLOAD_DIR st, file_name (fileList ! i)]) = Some m \<longrightarrow>
      downloadFile (Suc n) endpointName fileList password st =
        showFileManager n endpointName fileList password
          (st\<lparr>ins := later,
              out := out st @ [Asked (Select_file_prompt (map file_name fileList)),
                Info ''Downloading file...'',
                Sent (Get_file (file_id (fileList ! i)) (dotenv_parse env ''auth_token'')),
                Error_line m]\<rparr>))"
  by (simp add: upload_done download_done download_refused)

theorem file_list_after_transfer_witness:
  "(ins upload_state = Path_input ''a.txt'' # Http_ok (reply None None []) #
                        Http_ok (reply (Some ''abc'') (Some [a_txt]) []) # [] \<and>
    validate upload_state ''a.txt'' = Valid \<and>
    disk upload_state ''.env'' = Some ''auth_token=abc'') \<and>
   uploadFile (Suc 1) ''demo'' ''pw'' upload_state =
     try_catch (showFileManager 1 ''demo'' [a_txt] ''pw'') (upload_catch 1 ''demo'' ''pw'')
       (upload_state\<lparr>ins := [],
          out := [Asked File_path_prompt, Info ''Uploading file...'',
                  Sent (Post_upload ''demo'' ''a.txt'' (Some ''abc'')),
                  Success ''File uploaded successfully!'',
                  Sent (Get_site ''demo'' ''pw'')]\<rparr>) \<and>
   (ins download_state = Index_choice 0 # Http_ok (reply None None ''DATA'') # [] \<and>
    0 < length [a_txt] \<and> disk download_state ''.env'' = Some ''auth_token=abc'' \<and>
    write_refusal download_state
      (path_join [DOWNLOAD_DIR download_state, file_name ([a_txt] ! 0)]) = None) \<and>
   downloadFile (Suc 1) ''demo'' [a_txt] ''pw'' download_state =
     try_catch (showFileManager 1 ''demo'' [a_txt] ''pw'')
       (download_catch 1 ''demo'' [a_txt] ''pw'')
       (download_state\<lparr>
          out := [Asked (Select_file_prompt [''a.txt'']), Info ''Downloading file...'',
                  Sent (Get_file ''1'' (Some ''abc'')),
                  Success ''File downloaded to: /home/u/Downloads/cfileshare/a.txt''],
          ins := [],
          disk := [''.env'' \<mapsto> ''auth_token=abc'',
                   ''/home/u/Downloads/cfileshare/a.txt'' \<mapsto> ''DATA'']\<rparr>) \<and>
   (0 < length [nameless_file] \<and>
    write_refusal download_state
      (path_join [DOWNLOAD_DIR download_state, file_name ([nameless_file] ! 0)]) =
    Some (''EISDIR: illegal operation on a directory, open '' @ [squote] @
          ''/home/u/Downloads/cfileshare'' @ [squote])) \<and>
   downloadFile (Suc 1) ''demo'' [nameless_file] ''pw'' download_state =
     showFileManager 1 ''demo'' [nameless_file] ''pw''
       (download_state\<lparr>
          ins := [],
          out := [Asked (Select_file_prompt [[]]), Info ''Downloading file...'',
                  Sent (Get_file ''9'' (Some ''abc'')),
                  Error_line (''EISDIR: illegal operation on a directory, open '' @ [squote] @
                              ''/home/u/Downloads/cfileshare'' @ [squote])]\<rparr>)"
proof -
  have u: "ins upload_state = Path_input ''a.txt'' # Http_ok (reply None None []) #
                        Http_ok (reply (Some ''abc'') (Some [a_txt]) []) # [] \<and>
    validate upload_state ''a.txt'' = Valid \<and>
    disk upload_state ''.env'' = Some ''auth_token=abc''"
    by (simp add: upload_state_def validate_a_txt) (simp add: demo_state_def)
  have d: "ins download_state = Index_choice 0 # Http_ok (reply None None ''DATA'') # [] \<and>
    0 < length [a_txt] \<and> disk download_state ''.env'' = Some ''auth_token=abc'' \<and>
    write_refusal download_state
      (path_join [DOWNLOAD_DIR download_state, file_name ([a_txt] ! 0)]) = None"
    using download_state_a_txt_writable by (simp add: download_state_facts)
  have e: "0 < length [nameless_file] \<and>
    write_refusal download_state
      (path_join [DOWNLOAD_DIR download_state, file_name ([nameless_file] ! 0)]) =
    Some (''EISDIR: illegal operation on a directory, open '' @ [squote] @
          ''/home/u/Downloads/cfileshare'' @ [squote])"
    using download_state_nameless_refused by simp
  have fu: "files_or_empty (reply (Some ''abc'') (Some [a_txt]) []) = [a_txt]"
    by (simp add: files_or_empty_def reply_def)
  have ou: "out upload_state = []"
    by (simp add: upload_state_def demo_state_def)
  have fd: "file_id a_txt = ''1'' \<and> file_name a_txt = ''a.txt'' \<and>
            bytes (reply None None ''DATA'') = ''DATA'' \<and>
            file_id nameless_file = ''9'' \<and> file_name nameless_file = []"
    by (simp add: a_txt_def reply_def nameless_file_def)
  have cu: "uploadFile (Suc 1) ''demo'' ''pw'' upload_state =
     try_catch (showFileManager 1 ''demo'' [a_txt] ''pw'') (upload_catch 1 ''demo'' ''pw'')
       (upload_state\<lparr>ins := [],
          out := [Asked File_path_prompt, Info ''Uploading file...'',
                  Sent (Post_upload ''demo'' ''a.txt'' (Some ''abc'')),
                  Success ''File uploaded successfully!'',
                  Sent (Get_site ''demo'' ''pw'')]\<rparr>)"
    using u file_list_after_transfer
      [of upload_state "''a.txt''" "reply None None []" "reply (Some ''abc'') (Some [a_txt]) []"
          "[]" "''auth_token=abc''" 1 "''demo''" "''pw''"]
    by (simp add: fu ou dotenv_parse_abc filter_input_a_txt)
  have cd: "downloadFile (Suc 1) ''demo'' [a_txt] ''pw'' download_state =
     try_catch (showFileManager 1 ''demo'' [a_txt] ''pw'')
       (download_catch 1 ''demo'' [a_txt] ''pw'')
       (download_state\<lparr>
          out := [Asked (Select_file_prompt [''a.txt'']), Info ''Downloading file...'',
                  Sent (Get_file ''1'' (Some ''abc'')),
                  Success ''File downloaded to: /home/u/Downloads/cfileshare/a.txt''],
          ins := [],
          disk := [''.env'' \<mapsto> ''auth_token=abc'',
                   ''/home/u/Downloads/cfileshare/a.txt'' \<mapsto> ''DATA'']\<rparr>)"
    using d file_list_after_transfer
      [where st = download_state and i = 0 and r = "reply None None ''DATA''" and later = "[]"
         and env = "''auth_token=abc''" and n = 1 and endpointName = "''demo''"
         and password = "''pw''" and fileList = "[a_txt]"]
    by (simp add: download_state_facts fd dotenv_parse_abc download_path_a_txt)
  have ce: "downloadFile (Suc 1) ''demo'' [nameless_file] ''pw'' download_state =
     showFileManager 1 ''demo'' [nameless_file] ''pw''
       (download_state\<lparr>
          ins := [],
          out := [Asked (Select_file_prompt [[]]), Info ''Downloading file...'',
                  Sent (Get_file ''9'' (Some ''abc'')),
                  Error_line (''EISDIR: illegal operation on a directory, open '' @ [squote] @
                              ''/home/u/Downloads/cfileshare'' @ [squote])]\<rparr>)"
    using e file_list_after_transfer
      [where st = download_state and i = 0 and r = "reply None None ''DATA''" and later = "[]"
         and env = "''auth_token=abc''" and n = 1 and endpointName = "''demo''"
         and password = "''pw''" and fileList = "[nameless_file]"
         and m = "''EISDIR: illegal operation on a directory, open '' @ [squote] @
                  ''/home/u/Downloads/cfileshare'' @ [squote]"]
    by (simp add: download_state_facts fd dotenv_parse_abc)
  from u d e cu cd ce show ?thesis
    by (intro conjI) (erule conjE | assumption)+
qed

text \<open>
  C1 as stated fails for the download: after \<open>a.txt\<close> has been downloaded, the only
  request sent is the one for the file, and the file manager lists the files it listed
  before.
\<close>

theorem download_keeps_list_counterexample:
  "fst (downloadFile 2 ''demo'' [a_txt] ''pw'' download_state) = Halt Waiting \<and>
   out (snd (downloadFile 2 ''demo'' [a_txt] ''pw'' download_state)) =
     [Asked (Select_file_prompt [''a.txt'']), Info ''Downloading file...'',
      Sent (Get_file ''1'' (Some ''abc'')),
      Success ''File downloaded to: /home/u/Downloads/cfileshare/a.txt'',
      Clear, Title, Info ''Endpoint: demo'', Endpoint_line ''GET /site/demo'',
      File_line 1 ''a.txt'', Blank, Asked Action_prompt]"
proof -
  have d: "ins download_state = Index_choice 0 # Http_ok (reply None None ''DATA'') # []"
    "0 < length [a_txt]" "disk download_state ''.env'' = Some ''auth_token=abc''"
    by (simp_all add: download_state_def demo_state_def)
  show ?thesis
    using download_done [OF d download_state_a_txt_writable,
        where n = 1 and endpointName = "''demo''" and password = "''pw''"]
    by (simp add: numeral_2_eq_2 file_manager_waits [of _ 0, simplified] try_catch_def download_state_def
        demo_state_def DOWNLOAD_DIR_def a_txt_def dotenv_parse_abc download_path_a_txt
        download_dir_home_u)
qed

section \<open>A failed access returns to the main menu\<close>

text \<open>
  C4: when the request of \<open>accessEndpoint\<close> is rejected, the message that belongs to
  the error is printed (\<open>Endpoint not found\<close> for status 404, \<open>Invalid password\<close> for
  401, the \<open>error\<close> field of the body or \<open>Unknown error\<close> for any other status, the
  server-not-responding text when no response arrived), the files on disk are what they were,
  and after a pause of 2000 ms the main menu is shown.
\<close>

theorem access_failure_returns_to_menu:
  "ins st = Credentials endpointName password # Http_error e # later \<longrightarrow>
     accessEndpoint (Suc n) st =
       try_catch (showMainMenu n) (menu_after_error n)
         (st\<lparr>ins := later,
             out := out st @ [Clear, Title, Asked Access_prompt, Info ''Accessing endpoint...'',
                              Sent (Get_site endpointName password),
                              Error_line (access_error_text e), Sleep 2000]\<rparr>) \<and>
     disk (st\<lparr>ins := later,
             out := out st @ [Clear, Title, Asked Access_prompt, Info ''Accessing endpoint...'',
                              Sent (Get_site endpointName password),
                              Error_line (access_error_text e), Sleep 2000]\<rparr>) = disk st \<and>
     access_error_text (Response_error 404 d m) = ''Endpoint not found'' \<and>
     access_error_text (Response_error 401 d m) = ''Invalid password'' \<and>
     access_error_text (Request_error m) = ''Server not responding. Is the server running?'' \<and>
     access_error_text (Plain_error m) = m \<and>
     (status \<noteq> 404 \<and> status \<noteq> 401 \<longrightarrow>
        access_error_text (Response_error status d m) = or_else (data_error d) ''Unknown error'')"
  by (simp add: access_rejected)

theorem access_failure_returns_to_menu_witness:
  "ins (demo_state [Credentials ''demo'' ''pw'', Http_error not_found] Map.empty) =
     Credentials ''demo'' ''pw'' # Http_error not_found # [] \<and>
   accessEndpoint (Suc 1) (demo_state [Credentials ''demo'' ''pw'', Http_error not_found] Map.empty) =
     try_catch (showMainMenu 1) (menu_after_error 1)
       ((demo_state [Credentials ''demo'' ''pw'', Http_error not_found] Map.empty)
          \<lparr>ins := [],
           out := [Clear, Title, Asked Access_prompt, Info ''Accessing endpoint...'',
                   Sent (Get_site ''demo'' ''pw''), Error_line ''Endpoint not found'',
                   Sleep 2000]\<rparr>)"
proof -
  have i: "ins (demo_state [Credentials ''demo'' ''pw'', Http_error not_found] Map.empty) =
           Credentials ''demo'' ''pw'' # Http_error not_found # []"
    by (simp add: demo_state_def)
  have o: "out (demo_state [Credentials ''demo'' ''pw'', Http_error not_found] Map.empty) = []"
    by (simp add: demo_state_def)
  have t: "access_error_text not_found = ''Endpoint not found''"
    by (simp add: not_found_def)
  show ?thesis
    using i access_failure_returns_to_menu
      [of "demo_state [Credentials ''demo'' ''pw'', Http_error not_found] Map.empty"
          "''demo''" "''pw''" not_found "[]" 1]
    by (simp add: o t)
qed

section \<open>A successful access opens the file manager when the token could be saved\<close>




section \<open>A failure to create the download directory\<close>

text \<open>
  C6: the code at the failing input.  When \<open>mkdirSync\<close> throws, the \<open>catch\<close> block
  reads \<open>styles\<close>, which is declared further down in the module and is not yet
  initialised: the block throws before it has logged the failure and before
  \<open>process.exit(1)\<close>.  Nothing is written by the program; the process ends through the
  uncaught error.
\<close>

theorem startup_failure_is_not_logged:
  "mkdir_error unwritable_home_state (DOWNLOAD_DIR unwritable_home_state) =
     Some ''EACCES: permission denied'' \<and>
   \<not> existsSync unwritable_home_state (DOWNLOAD_DIR unwritable_home_state) \<and>
   main 3 unwritable_home_state =
     (Throw styles_error, unwritable_home_state\<lparr>styles_initialized := False\<rparr>) \<and>
   out (snd (main 3 unwritable_home_state)) = [] \<and>
   node 3 unwritable_home_state =
     (Halt (Exited 1),
      unwritable_home_state\<lparr>styles_initialized := False, out := [Uncaught styles_error]\<rparr>)"
proof -
  have h: "mkdir_error unwritable_home_state (DOWNLOAD_DIR unwritable_home_state) =
             Some ''EACCES: permission denied''"
    "\<not> existsSync unwritable_home_state (DOWNLOAD_DIR unwritable_home_state)"
    by (simp_all add: unwritable_home_state_def demo_state_def DOWNLOAD_DIR_def
        download_dir_home_u existsSync_def statSync_def)
  have o: "out unwritable_home_state = []"
    by (simp add: unwritable_home_state_def demo_state_def)
  show ?thesis
    using h main_mkdir_fails [OF h, of 3]
    by (simp add: node_def o)
qed

section \<open>A missing credential file aborts the transfer\<close>

text \<open>
  C7, as the code has it: when the file \<open>.env\<close> does not exist, an upload or download
  is given up before any request is sent, the error is printed, and the file manager is
  shown again: with the empty list after an upload, with the unchanged list after a
  download.
\<close>

theorem missing_credential_aborts:
  "(ins st = Path_input raw # later \<and> validate st raw = Valid \<and> disk st ''.env'' = None \<longrightarrow>
      uploadFile (Suc n) endpointName password st =
        showFileManager n endpointName [] password
          (st\<lparr>ins := later,
              out := out st @ [Asked File_path_prompt,
                Error_line (''ENOENT: no such file or directory, open '' @ [squote] @ ''.env'' @
                            [squote])]\<rparr>)) \<and>
   (ins st = Index_choice i # later \<and> disk st ''.env'' = None \<longrightarrow>
      downloadFile (Suc n) endpointName fileList password st =
        showFileManager n endpointName fileList password
          (st\<lparr>ins := later,
              out := out st @ [Asked (Select_file_prompt (map file_name fileList)),
                Error_line (''ENOENT: no such file or directory, open '' @ [squote] @ ''.env'' @
                            [squote])]\<rparr>))"
  by (simp add: upload_no_credential download_no_credential)

theorem missing_credential_aborts_witness:
  "(ins upload_state_without_credential = Path_input ''a.txt'' # [] \<and>
    validate upload_state_without_credential ''a.txt'' = Valid \<and>
    disk upload_state_without_credential ''.env'' = None) \<and>
   uploadFile (Suc 1) ''demo'' ''pw'' upload_state_without_credential =
     showFileManager 1 ''demo'' [] ''pw''
       (upload_state_without_credential\<lparr>ins := [],
          out := [Asked File_path_prompt,
                  Error_line (''ENOENT: no such file or directory, open '' @ [squote] @ ''.env'' @
                              [squote])]\<rparr>) \<and>
   (ins download_state_without_credential = Index_choice 0 # [] \<and>
    disk download_state_without_credential ''.env'' = None) \<and>
   downloadFile (Suc 1) ''demo'' [a_txt] ''pw'' download_state_without_credential =
     showFileManager 1 ''demo'' [a_txt] ''pw''
       (download_state_without_credential\<lparr>ins := [],
          out := [Asked (Select_file_prompt [''a.txt'']),
                  Error_line (''ENOENT: no such file or directory, open '' @ [squote] @ ''.env'' @
                              [squote])]\<rparr>)"
proof -
  have u: "ins upload_state_without_credential = Path_input ''a.txt'' # [] \<and>
    validate upload_state_without_credential ''a.txt'' = Valid \<and>
    disk upload_state_without_credential ''.env'' = None"
    by (simp add: upload_state_without_credential_def validate_a_txt) (simp add: demo_state_def)
  have d: "ins download_state_without_credential = Index_choice 0 # [] \<and>
    disk download_state_without_credential ''.env'' = None"
    by (simp add: download_state_without_credential_def demo_state_def)
  have o: "out upload_state_without_credential = [] \<and>
           out download_state_without_credential = [] \<and> file_name a_txt = ''a.txt''"
    by (simp add: upload_state_without_credential_def download_state_without_credential_def
        demo_state_def a_txt_def)
  have cu: "uploadFile (Suc 1) ''demo'' ''pw'' upload_state_without_credential =
     showFileManager 1 ''demo'' [] ''pw''
       (upload_state_without_credential\<lparr>ins := [],
          out := [Asked File_path_prompt,
                  Error_line (''ENOENT: no such file or directory, open '' @ [squote] @ ''.env'' @
                              [squote])]\<rparr>)"
    using u missing_credential_aborts
      [where st = upload_state_without_credential and raw = "''a.txt''" and later = "[]"
         and n = 1 and endpointName = "''demo''" and password = "''pw''"]
    by (simp add: o)
  have cd: "downloadFile (Suc 1) ''demo'' [a_txt] ''pw'' download_state_without_credential =
     showFileManager 1 ''demo'' [a_txt] ''pw''
       (download_state_without_credential\<lparr>ins := [],
          out := [Asked (Select_file_prompt [''a.txt'']),
                  Error_line (''ENOENT: no such file or directory, open '' @ [squote] @ ''.env'' @
                              [squote])]\<rparr>)"
    using d missing_credential_aborts
      [where st = download_state_without_credential and i = 0 and later = "[]"
         and n = 1 and endpointName = "''demo''" and password = "''pw''"
         and fileList = "[a_txt]"]
    by (simp add: o)
  from u d cu cd show ?thesis
    by (intro conjI) (erule conjE | assumption)+
qed

text \<open>
  C7 as stated fails for a malformed credential file: \<open>dotenv.parse\<close> yields no
  \<open>auth_token\<close> for the content \<open>garbage\<close>, and the upload goes on; the request is
  sent without a credential, and when the service accepts it no error is printed.
\<close>

theorem upload_with_malformed_credential_counterexample:
  "disk malformed_credential_state ''.env'' = Some ''garbage'' \<and>
   dotenv_parse ''garbage'' ''auth_token'' = None \<and>
   fst (uploadFile 2 ''demo'' ''pw'' malformed_credential_state) = Halt Waiting \<and>
   out (snd (uploadFile 2 ''demo'' ''pw'' malformed_credential_state)) =
     [Asked File_path_prompt, Info ''Uploading file...'',
      Sent (Post_upload ''demo'' ''a.txt'' None), Success ''File uploaded successfully!'',
      Sent (Get_site ''demo'' ''pw''),
      Clear, Title, Info ''Endpoint: demo'', Endpoint_line ''GET /site/demo'',
      File_line 1 ''a.txt'', Blank, Asked Action_prompt]"
proof -
  have u: "ins malformed_credential_state =
             Path_input ''a.txt'' # Http_ok (reply None None []) #
             Http_ok (reply (Some ''abc'') (Some [a_txt]) []) # []"
    "validate malformed_credential_state ''a.txt'' = Valid"
    "disk malformed_credential_state ''.env'' = Some ''garbage''"
    by (simp_all add: malformed_credential_state_def validate_a_txt) (simp_all add: demo_state_def)
  show ?thesis
    using upload_done [OF u, where n = 1 and endpointName = "''demo''" and password = "''pw''"]
    by (simp add: numeral_2_eq_2 file_manager_waits [of _ 0, simplified] try_catch_def
        malformed_credential_state_def demo_state_def a_txt_def dotenv_parse_garbage
        filter_input_a_txt files_or_empty_def reply_def)
qed

section \<open>Creating an endpoint returns to the main menu\<close>

text \<open>
  C8, as the code has it.  After a 2xx response to \<open>createEndpoint\<close> that carries a
  credential, the credential is written to \<open>.env\<close> when that file can be written, and
  the main menu is shown next; when the file cannot be written, nothing is saved, the
  error is printed and the main menu is shown after a pause of 2000 ms.  Without a
  credential in the response nothing is written, and the main menu is shown all the
  same.  After a rejected request the error is printed and the main menu is shown after
  a pause of 2000 ms.  The file manager is not entered in any of these cases.
\<close>

theorem create_returns_to_menu:
  "(ins st = Credentials endpointName password # Http_ok r # later \<and>
    auth_token (data r) = Some token \<and> token \<noteq> [] \<and> write_refusal st ''.env'' = None \<longrightarrow>
      createEndpoint (Suc n) st =
        try_catch (try_catch (showMainMenu n) (create_catch n)) (menu_after_error n)
          (st\<lparr>out := out st @ [Clear, Title, Asked Create_prompt, Info ''Creating endpoint...'',
                               Sent (Post_createsite endpointName password),
                               Success ''Endpoint created successfully!''],
              ins := later,
              disk := (disk st)(''.env'' \<mapsto> ''auth_token='' @ token)\<rparr>)) \<and>
   (ins st = Credentials endpointName password # Http_ok r # later \<and>
    auth_token (data r) = Some token \<and> token \<noteq> [] \<and> write_refusal st ''.env'' = Some m \<longrightarrow>
      createEndpoint (Suc n) st =
        try_catch (showMainMenu n) (menu_after_error n)
          (st\<lparr>ins := later,
              out := out st @ [Clear, Title, Asked Create_prompt, Info ''Creating endpoint...'',
                               Sent (Post_createsite endpointName password),
                               Error_line m, Sleep 2000]\<rparr>)) \<and>
   (ins st = Credentials endpointName password # Http_ok r # later \<and>
    \<not> truthy (auth_token (data r)) \<longrightarrow>
      createEndpoint (Suc n) st =
        try_catch (try_catch (showMainMenu n) (create_catch n)) (menu_after_error n)
          (st\<lparr>ins := later,
              out := out st @ [Clear, Title, Asked Create_prompt, Info ''Creating endpoint...'',
                               Sent (Post_createsite endpointName password)]\<rparr>)) \<and>
   (ins st = Credentials endpointName password # Http_error e # later \<longrightarrow>
      createEndpoint (Suc n) st =
        try_catch (showMainMenu n) (menu_after_error n)
          (st\<lparr>ins := later,
              out := out st @ [Clear, Title, Asked Create_prompt, Info ''Creating endpoint...'',
                               Sent (Post_createsite endpointName password),
                               Error_line (create_error_text e), Sleep 2000]\<rparr>))"
proof -
  have saved: "createEndpoint (Suc n) st =
        try_catch (try_catch (showMainMenu n) (create_catch n)) (menu_after_error n)
          (st\<lparr>out := out st @ [Clear, Title, Asked Create_prompt, Info ''Creating endpoint...'',
                               Sent (Post_createsite endpointName password),
                               Success ''Endpoint created successfully!''],
              ins := later,
              disk := (disk st)(''.env'' \<mapsto> ''auth_token='' @ token)\<rparr>)"
    if "ins st = Credentials endpointName password # Http_ok r # later \<and>
        auth_token (data r) = Some token \<and> token \<noteq> [] \<and> write_refusal st ''.env'' = None"
    using that by (simp add: create_token)
  have refused: "createEndpoint (Suc n) st =
        try_catch (showMainMenu n) (menu_after_error n)
          (st\<lparr>ins := later,
              out := out st @ [Clear, Title, Asked Create_prompt, Info ''Creating endpoint...'',
                               Sent (Post_createsite endpointName password),
                               Error_line m, Sleep 2000]\<rparr>)"
    if "ins st = Credentials endpointName password # Http_ok r # later \<and>
        auth_token (data r) = Some token \<and> token \<noteq> [] \<and> write_refusal st ''.env'' = Some m"
    using that by (simp add: create_token_refused [where token = token])
  have without: "createEndpoint (Suc n) st =
        try_catch (try_catch (showMainMenu n) (create_catch n)) (menu_after_error n)
          (st\<lparr>ins := later,
              out := out st @ [Clear, Title, Asked Create_prompt, Info ''Creating endpoint...'',
                               Sent (Post_createsite endpointName password)]\<rparr>)"
    if "ins st = Credentials endpointName password # Http_ok r # later \<and>
        \<not> truthy (auth_token (data r))"
    using that by (simp add: create_no_token)
  have rejected: "createEndpoint (Suc n) st =
        try_catch (showMainMenu n) (menu_after_error n)
          (st\<lparr>ins := later,
              out := out st @ [Clear, Title, Asked Create_prompt, Info ''Creating endpoint...'',
                               Sent (Post_createsite endpointName password),
                               Error_line (create_error_text e), Sleep 2000]\<rparr>)"
    if "ins st = Credentials endpointName password # Http_error e # later"
    using that by (simp add: create_rejected)
  from saved refused without rejected show ?thesis
    by (intro conjI impI)
qed

theorem create_returns_to_menu_witness:
  "(ins (create_state (reply (Some ''abc'') None [])) =
      Credentials ''demo'' ''pw'' # Http_ok (reply (Some ''abc'') None []) # [] \<and>
    auth_token (data (reply (Some ''abc'') None [])) = Some ''abc'' \<and> ''abc'' \<noteq> [] \<and>
    write_refusal (create_state (reply (Some ''abc'') None [])) ''.env'' = None) \<and>
   createEndpoint (Suc 1) (create_state (reply (Some ''abc'') None [])) =
     try_catch (try_catch (showMainMenu 1) (create_catch 1)) (menu_after_error 1)
       ((create_state (reply (Some ''abc'') None []))
          \<lparr>out := [Clear, Title, Asked Create_prompt, Info ''Creating endpoint...'',
                   Sent (Post_createsite ''demo'' ''pw''),
                   Success ''Endpoint created successfully!''],
           ins := [],
           disk := [''.env'' \<mapsto> ''auth_token=abc'']\<rparr>) \<and>
   (ins unwritable_create_state =
      Credentials ''demo'' ''pw'' # Http_ok (reply (Some ''abc'') None []) # [] \<and>
    write_refusal unwritable_create_state ''.env'' =
      Some (''EISDIR: illegal operation on a directory, open '' @ [squote] @ ''.env'' @ [squote])) \<and>
   createEndpoint (Suc 1) unwritable_create_state =
     try_catch (showMainMenu 1) (menu_after_error 1)
       (unwritable_create_state
          \<lparr>ins := [],
           out := [Clear, Title, Asked Create_prompt, Info ''Creating endpoint...'',
                   Sent (Post_createsite ''demo'' ''pw''),
                   Error_line (''EISDIR: illegal operation on a directory, open '' @ [squote] @
                               ''.env'' @ [squote]),
                   Sleep 2000]\<rparr>) \<and>
   (ins (create_state (reply None None [])) =
      Credentials ''demo'' ''pw'' # Http_ok (reply None None []) # [] \<and>
    \<not> truthy (auth_token (data (reply None None [])))) \<and>
   createEndpoint (Suc 1) (create_state (reply None None [])) =
     try_catch (try_catch (showMainMenu 1) (create_catch 1)) (menu_after_error 1)
       ((create_state (reply None None []))
          \<lparr>ins := [],
           out := [Clear, Title, Asked Create_prompt, Info ''Creating endpoint...'',
                   Sent (Post_createsite ''demo'' ''pw'')]\<rparr>) \<and>
   ins rejected_state = Credentials ''demo'' ''pw'' # Http_error not_found # [] \<and>
   createEndpoint (Suc 1) rejected_state =
     try_catch (showMainMenu 1) (menu_after_error 1)
       (rejected_state
          \<lparr>ins := [],
           out := [Clear, Title, Asked Create_prompt, Info ''Creating endpoint...'',
                   Sent (Post_createsite ''demo'' ''pw''),
                   Error_line ''Site not found'', Sleep 2000]\<rparr>)"
proof -
  have a: "ins (create_state (reply (Some ''abc'') None [])) =
      Credentials ''demo'' ''pw'' # Http_ok (reply (Some ''abc'') None []) # [] \<and>
    auth_token (data (reply (Some ''abc'') None [])) = Some ''abc'' \<and> ''abc'' \<noteq> [] \<and>
    write_refusal (create_state (reply (Some ''abc'') None [])) ''.env'' = None"
    by (simp add: create_state_def demo_env_writable) (simp add: demo_state_def reply_def)
  have w: "ins unwritable_create_state =
      Credentials ''demo'' ''pw'' # Http_ok (reply (Some ''abc'') None []) # [] \<and>
    write_refusal unwritable_create_state ''.env'' =
      Some (''EISDIR: illegal operation on a directory, open '' @ [squote] @ ''.env'' @ [squote])"
    by (simp add: unwritable_create_state_def credential_directory_refusal)
       (simp add: credential_directory_state_def demo_state_def)
  have b: "ins (create_state (reply None None [])) =
      Credentials ''demo'' ''pw'' # Http_ok (reply None None []) # [] \<and>
    \<not> truthy (auth_token (data (reply None None [])))"
    by (simp add: create_state_def demo_state_def reply_def truthy_def)
  have c: "ins rejected_state = Credentials ''demo'' ''pw'' # Http_error not_found # []"
    by (simp add: rejected_state_def demo_state_def)
  have o: "out (create_state r) = [] \<and> disk (create_state r) = Map.empty \<and>
           out rejected_state = [] \<and> create_error_text not_found = ''Site not found'' \<and>
           out unwritable_create_state = []" for r
    by (simp add: create_state_def rejected_state_def demo_state_def not_found_def or_else_def
        unwritable_create_state_def credential_directory_state_def)
  have ca: "createEndpoint (Suc 1) (create_state (reply (Some ''abc'') None [])) =
     try_catch (try_catch (showMainMenu 1) (create_catch 1)) (menu_after_error 1)
       ((create_state (reply (Some ''abc'') None []))
          \<lparr>out := [Clear, Title, Asked Create_prompt, Info ''Creating endpoint...'',
                   Sent (Post_createsite ''demo'' ''pw''),
                   Success ''Endpoint created successfully!''],
           ins := [],
           disk := [''.env'' \<mapsto> ''auth_token=abc'']\<rparr>)"
    using a create_returns_to_menu
      [where st = "create_state (reply (Some ''abc'') None [])" and endpointName = "''demo''"
         and password = "''pw''" and r = "reply (Some ''abc'') None []" and later = "[]"
         and token = "''abc''" and n = 1]
    by (simp add: o)
  have cw: "createEndpoint (Suc 1) unwritable_create_state =
     try_catch (showMainMenu 1) (menu_after_error 1)
       (unwritable_create_state
          \<lparr>ins := [],
           out := [Clear, Title, Asked Create_prompt, Info ''Creating endpoint...'',
                   Sent (Post_createsite ''demo'' ''pw''),
                   Error_line (''EISDIR: illegal operation on a directory, open '' @ [squote] @
                               ''.env'' @ [squote]),
                   Sleep 2000]\<rparr>)"
    using a w create_returns_to_menu
      [where st = unwritable_create_state and endpointName = "''demo''"
         and password = "''pw''" and r = "reply (Some ''abc'') None []" and later = "[]"
         and token = "''abc''" and n = 1
         and m = "''EISDIR: illegal operation on a directory, open '' @ [squote] @ ''.env'' @
                  [squote]"]
    by (simp add: o)
  have cb: "createEndpoint (Suc 1) (create_state (reply None None [])) =
     try_catch (try_catch (showMainMenu 1) (create_catch 1)) (menu_after_error 1)
       ((create_state (reply None None []))
          \<lparr>ins := [],
           out := [Clear, Title, Asked Create_prompt, Info ''Creating endpoint...'',
                   Sent (Post_createsite ''demo'' ''pw'')]\<rparr>)"
    using b create_returns_to_menu
      [where st = "create_state (reply None None [])" and endpointName = "''demo''"
         and password = "''pw''" and r = "reply None None []" and later = "[]" and n = 1]
    by (simp add: o)
  have cc: "createEndpoint (Suc 1) rejected_state =
     try_catch (showMainMenu 1) (menu_after_error 1)
       (rejected_state
          \<lparr>ins := [],
           out := [Clear, Title, Asked Create_prompt, Info ''Creating endpoint...'',
                   Sent (Post_createsite ''demo'' ''pw''),
                   Error_line ''Site not found'', Sleep 2000]\<rparr>)"
    using c create_returns_to_menu
      [where st = rejected_state and endpointName = "''demo''"
         and password = "''pw''" and e = not_found and later = "[]" and n = 1]
    by (simp add: o)
  from a w b c ca cw cb cc show ?thesis
    by (intro conjI) (erule conjE | assumption)+
qed

text \<open>
  C8 as stated fails when the credential file cannot be written.  In a working directory
  that has a directory of the name \<open>.env\<close>, the service creates the endpoint and
  returns the credential \<open>abc\<close>, the write throws, and no credential is saved: the
  error is printed and the main menu is shown after the pause.
\<close>

theorem create_without_saving_counterexample:
  "auth_token (data (reply (Some ''abc'') None [])) = Some ''abc'' \<and>
   fst (createEndpoint 2 unwritable_create_state) = Halt Waiting \<and>
   disk (snd (createEndpoint 2 unwritable_create_state)) = Map.empty \<and>
   out (snd (createEndpoint 2 unwritable_create_state)) =
     [Clear, Title, Asked Create_prompt, Info ''Creating endpoint...'',
      Sent (Post_createsite ''demo'' ''pw''),
      Error_line (''EISDIR: illegal operation on a directory, open '' @ [squote] @ ''.env'' @
                  [squote]),
      Sleep 2000, Clear, Title, Asked Main_menu_prompt]"
proof -
  have w: "ins unwritable_create_state =
      Credentials ''demo'' ''pw'' # Http_ok (reply (Some ''abc'') None []) # []"
    "auth_token (data (reply (Some ''abc'') None [])) = Some ''abc''" "''abc'' \<noteq> []"
    "write_refusal unwritable_create_state ''.env'' =
      Some (''EISDIR: illegal operation on a directory, open '' @ [squote] @ ''.env'' @ [squote])"
    by (simp_all add: unwritable_create_state_def credential_directory_refusal)
       (simp_all add: credential_directory_state_def demo_state_def reply_def)
  show ?thesis
    using create_token_refused [OF w, where n = 1]
    by (simp add: numeral_2_eq_2 main_menu_waits [of _ 0, simplified] try_catch_def w(2)
        unwritable_create_state_def credential_directory_state_def demo_state_def)
qed

section \<open>The credential file is written only for a truthy token\<close>

text \<open>
  C10: up to the point where the next screen takes over, \<open>accessEndpoint\<close> and
  \<open>createEndpoint\<close> change nothing but the inputs read and the events when the 2xx
  response has no truthy \<open>auth_token\<close>, or when the request is rejected: the files on
  disk, the credential file among them, stay as they are.
\<close>

theorem credential_file_untouched_without_token:
  "(ins st = Credentials endpointName password # Http_ok r # later \<and>
    \<not> truthy (auth_token (data r)) \<longrightarrow>
      accessEndpoint (Suc n) st =
        (Val (), st\<lparr>ins := later,
                   out := out st @ [Clear, Title, Asked Access_prompt,
                                    Info ''Accessing endpoint...'',
                                    Sent (Get_site endpointName password)]\<rparr>) \<and>
      createEndpoint (Suc n) st =
        try_catch (try_catch (showMainMenu n) (create_catch n)) (menu_after_error n)
          (st\<lparr>ins := later,
              out := out st @ [Clear, Title, Asked Create_prompt, Info ''Creating endpoint...'',
                               Sent (Post_createsite endpointName password)]\<rparr>)) \<and>
   (ins st = Credentials endpointName password # Http_error e # later \<longrightarrow>
      accessEndpoint (Suc n) st =
        try_catch (showMainMenu n) (menu_after_error n)
          (st\<lparr>ins := later,
              out := out st @ [Clear, Title, Asked Access_prompt, Info ''Accessing endpoint...'',
                               Sent (Get_site endpointName password),
                               Error_line (access_error_text e), Sleep 2000]\<rparr>) \<and>
      createEndpoint (Suc n) st =
        try_catch (showMainMenu n) (menu_after_error n)
          (st\<lparr>ins := later,
              out := out st @ [Clear, Title, Asked Create_prompt, Info ''Creating endpoint...'',
                               Sent (Post_createsite endpointName password),
                               Error_line (create_error_text e), Sleep 2000]\<rparr>)) \<and>
   disk (st\<lparr>ins := later, out := out st @ evs\<rparr>) = disk st"
  by (simp add: access_no_token access_rejected create_no_token create_rejected)

theorem credential_file_untouched_without_token_witness:
  "(ins (create_state (reply None None [])) =
      Credentials ''demo'' ''pw'' # Http_ok (reply None None []) # [] \<and>
    \<not> truthy (auth_token (data (reply None None [])))) \<and>
   accessEndpoint (Suc 1) (create_state (reply None None [])) =
     (Val (), (create_state (reply None None []))
          \<lparr>ins := [],
           out := [Clear, Title, Asked Access_prompt, Info ''Accessing endpoint...'',
                   Sent (Get_site ''demo'' ''pw'')]\<rparr>) \<and>
   ins rejected_state = Credentials ''demo'' ''pw'' # Http_error not_found # [] \<and>
   createEndpoint (Suc 1) rejected_state =
     try_catch (showMainMenu 1) (menu_after_error 1)
       (rejected_state
          \<lparr>ins := [],
           out := [Clear, Title, Asked Create_prompt, Info ''Creating endpoint...'',
                   Sent (Post_createsite ''demo'' ''pw''),
                   Error_line ''Site not found'', Sleep 2000]\<rparr>)"
proof -
  have b: "ins (create_state (reply None None [])) =
      Credentials ''demo'' ''pw'' # Http_ok (reply None None []) # [] \<and>
    \<not> truthy (auth_token (data (reply None None [])))"
    by (simp add: create_state_def demo_state_def reply_def truthy_def)
  have c: "ins rejected_state = Credentials ''demo'' ''pw'' # Http_error not_found # []"
    by (simp add: rejected_state_def demo_state_def)
  have o: "out (create_state r) = [] \<and>
           out rejected_state = [] \<and> create_error_text not_found = ''Site not found''" for r
    by (simp add: create_state_def rejected_state_def demo_state_def not_found_def or_else_def)
  have cb: "accessEndpoint (Suc 1) (create_state (reply None None [])) =
     (Val (), (create_state (reply None None []))
          \<lparr>ins := [],
           out := [Clear, Title, Asked Access_prompt, Info ''Accessing endpoint...'',
                   Sent (Get_site ''demo'' ''pw'')]\<rparr>)"
    using b credential_file_untouched_without_token
      [where st = "create_state (reply None None [])" and endpointName = "''demo''"
         and password = "''pw''" and r = "reply None None []" and later = "[]" and n = 1]
    by (simp add: o)
  have cc: "createEndpoint (Suc 1) rejected_state =
     try_catch (showMainMenu 1) (menu_after_error 1)
       (rejected_state
          \<lparr>ins := [],
           out := [Clear, Title, Asked Create_prompt, Info ''Creating endpoint...'',
                   Sent (Post_createsite ''demo'' ''pw''),
                   Error_line ''Site not found'', Sleep 2000]\<rparr>)"
    using c credential_file_untouched_without_token
      [where st = rejected_state and endpointName = "''demo''"
         and password = "''pw''" and e = not_found and later = "[]" and n = 1]
    by (simp add: o)
  from b c cb cc show ?thesis
    by (intro conjI) (erule conjE | assumption)+
qed

section \<open>The credential is read back as it was saved when it is a plain token\<close>




section \<open>A download writes the response under the joined path\<close>




end
